theory Spec2Isabelle
  imports Complex_Main
begin

section \<open>Python values, exceptions and observable effects\<close>

text \<open>
  The exception classes that the code names or that its library calls raise. The
  class hierarchy is given by the \<open>is_...\<close> predicates below, which stand for
  Python's \<open>isinstance\<close> tests in the \<open>except\<close> clauses.
\<close>

datatype exn =
    JSONDecodeError | UnicodeDecodeError | KeyError | AttributeError | ValueError
  | TypeError | OverflowError | OSError | KeyboardInterrupt
  | PsycopgInterfaceError | PsycopgDatabaseError | PsycopgOperationalError
  | PsycopgIntegrityError | PsycopgDataError | PsycopgProgrammingError
  | AMQPConnectionError | ConnectionClosedByBroker | StreamLostError
  | AMQPChannelError | ChannelClosedByBroker

text \<open>\<open>psycopg.errors.DatabaseError\<close> and its subclasses.\<close>

fun is_DatabaseError :: "exn \<Rightarrow> bool" where
  "is_DatabaseError PsycopgDatabaseError = True"
| "is_DatabaseError PsycopgOperationalError = True"
| "is_DatabaseError PsycopgIntegrityError = True"
| "is_DatabaseError PsycopgDataError = True"
| "is_DatabaseError PsycopgProgrammingError = True"
| "is_DatabaseError _ = False"

text \<open>\<open>psycopg.Error\<close>: the database errors and \<open>InterfaceError\<close>.\<close>

fun is_psycopg_Error :: "exn \<Rightarrow> bool" where
  "is_psycopg_Error PsycopgInterfaceError = True"
| "is_psycopg_Error e = is_DatabaseError e"

text \<open>\<open>pika.exceptions.AMQPConnectionError\<close> and its subclasses.\<close>

fun is_AMQPConnectionError :: "exn \<Rightarrow> bool" where
  "is_AMQPConnectionError AMQPConnectionError = True"
| "is_AMQPConnectionError ConnectionClosedByBroker = True"
| "is_AMQPConnectionError StreamLostError = True"
| "is_AMQPConnectionError _ = False"

text \<open>\<open>Exception\<close>: everything here except \<open>KeyboardInterrupt\<close>.\<close>

fun is_Exception :: "exn \<Rightarrow> bool" where
  "is_Exception KeyboardInterrupt = False"
| "is_Exception _ = True"

text \<open>The tuple \<open>(json.JSONDecodeError, KeyError)\<close> of the callback's outer handler.\<close>

fun is_JSONDecodeError_or_KeyError :: "exn \<Rightarrow> bool" where
  "is_JSONDecodeError_or_KeyError JSONDecodeError = True"
| "is_JSONDecodeError_or_KeyError KeyError = True"
| "is_JSONDecodeError_or_KeyError _ = False"

text \<open>
  Python floats are only tested for truth here; a finite float is a real number.
\<close>

datatype pyfloat = Finite real | PosInf | NegInf | NaN

text \<open>
  The values a decoded message holds and the values bound to a statement:
  \<open>None\<close>, booleans, integers, floats, strings, lists, dictionaries (association
  lists, looked up with \<open>map_of\<close>) and \<open>datetime\<close> objects (named by their
  ISO-8601 text).
\<close>

datatype pyval =
    PNone | PBool bool | PInt int | PFloat pyfloat | PStr string
  | PList "pyval list" | PDict "(string \<times> pyval) list" | PDatetime string

type_synonym pydict = "(string \<times> pyval) list"

text \<open>Python's truth test, as in \<open>if message.get(key):\<close>.\<close>

fun truthy :: "pyval \<Rightarrow> bool" where
  "truthy PNone = False"
| "truthy (PBool b) = b"
| "truthy (PInt i) = (i \<noteq> 0)"
| "truthy (PFloat (Finite r)) = (r \<noteq> 0)"
| "truthy (PFloat _) = True"
| "truthy (PStr s) = (s \<noteq> [])"
| "truthy (PList xs) = (xs \<noteq> [])"
| "truthy (PDict kvs) = (kvs \<noteq> [])"
| "truthy (PDatetime _) = True"

text \<open>\<open>message.get(key)\<close> on a dictionary: the value, or \<open>None\<close> when the key is absent.\<close>

definition dict_get :: "pydict \<Rightarrow> string \<Rightarrow> pyval" where
  "dict_get d k = (case map_of d k of None \<Rightarrow> PNone | Some v \<Rightarrow> v)"

text \<open>\<open>message.get(key, default)\<close>.\<close>

definition dict_get_default :: "pydict \<Rightarrow> string \<Rightarrow> pyval \<Rightarrow> pyval" where
  "dict_get_default d k dflt = (case map_of d k of None \<Rightarrow> dflt | Some v \<Rightarrow> v)"

text \<open>\<open>sep.join(xs)\<close>.\<close>

fun py_join :: "string \<Rightarrow> string list \<Rightarrow> string" where
  "py_join sep [] = []"
| "py_join sep [x] = x"
| "py_join sep (x # y # ys) = x @ sep @ py_join sep (y # ys)"

text \<open>\<open>str(i)\<close> for a non-negative integer, as the f-strings \<open>f"MediaUrl{i}"\<close> use it.\<close>

definition digit_char :: "nat \<Rightarrow> char" where
  "digit_char n = ''0123456789'' ! (n mod 10)"

fun str_nat :: "nat \<Rightarrow> string" where
  "str_nat n = (if n < 10 then [digit_char n] else str_nat (n div 10) @ [digit_char (n mod 10)])"

declare str_nat.simps [simp del]

text \<open>\<open>str(x)\<close> of an optional configuration string: an unset variable prints as \<open>None\<close>.\<close>

definition str_opt :: "string option \<Rightarrow> string" where
  "str_opt s = (case s of None \<Rightarrow> ''None'' | Some t \<Rightarrow> t)"

datatype level = DEBUG | INFO | ERROR | CRITICAL

datatype logarg = ArgVal pyval | ArgExn exn

text \<open>
  What a run does to the outside: log records (format string and arguments), calls on
  the Postgres connection and cursor, calls on the broker channel, and sleeps.
  \<open>BasicNack\<close> and \<open>BasicReject\<close> are the channel's rejection calls; no function
  below issues them.
\<close>

datatype event =
    Log level string "logarg list"
  | PsycopgConnect string "string option" string "string option"
  | ConnCursor
  | CursorExecute string "pyval list"
  | CursorClose
  | ConnCommit
  | ConnClose
  | BasicAck nat
  | BasicNack nat bool
  | BasicReject nat bool
  | BasicPublish string string string
  | BlockingConnection string string string
  | ConnectionChannel
  | ExchangeDeclare string string
  | QueueDeclare string bool "(string \<times> pyval) list"
  | QueueBind string string
  | BasicConsume string bool
  | StartConsuming
  | Sleep nat

fun is_ack :: "event \<Rightarrow> bool" where
  "is_ack (BasicAck _) = True"
| "is_ack _ = False"

fun is_requeue :: "event \<Rightarrow> bool" where
  "is_requeue (BasicNack _ _) = True"
| "is_requeue (BasicReject _ _) = True"
| "is_requeue (BasicPublish _ _ _) = True"
| "is_requeue _ = False"

fun is_execute :: "event \<Rightarrow> bool" where
  "is_execute (CursorExecute _ _) = True"
| "is_execute _ = False"

fun is_database_call :: "event \<Rightarrow> bool" where
  "is_database_call (PsycopgConnect _ _ _ _) = True"
| "is_database_call ConnCursor = True"
| "is_database_call (CursorExecute _ _) = True"
| "is_database_call CursorClose = True"
| "is_database_call ConnCommit = True"
| "is_database_call ConnClose = True"
| "is_database_call _ = False"

fun is_sleep :: "event \<Rightarrow> bool" where
  "is_sleep (Sleep _) = True"
| "is_sleep _ = False"

section \<open>Computations: a trace of effects and a result or an exception\<close>

type_synonym 'a comp = "event list \<times> (exn + 'a)"

definition py_return :: "'a \<Rightarrow> 'a comp" where
  "py_return x = ([], Inr x)"

definition py_raise :: "exn \<Rightarrow> 'a comp" where
  "py_raise e = ([], Inl e)"

text \<open>A call to the outside: the call is recorded, then it returns or raises.\<close>

definition call :: "event \<Rightarrow> exn option \<Rightarrow> unit comp" where
  "call ev outcome = ([ev], (case outcome of None \<Rightarrow> Inr () | Some e \<Rightarrow> Inl e))"

definition logger_log :: "level \<Rightarrow> string \<Rightarrow> logarg list \<Rightarrow> unit comp" where
  "logger_log lvl fmt args = ([Log lvl fmt args], Inr ())"

text \<open>Sequencing: an exception in the first part skips the rest.\<close>

definition py_bind :: "'a comp \<Rightarrow> ('a \<Rightarrow> 'b comp) \<Rightarrow> 'b comp" where
  "py_bind m f =
     (case m of
        (t, Inl e) \<Rightarrow> (t, Inl e)
      | (t, Inr x) \<Rightarrow> (case f x of (t', r) \<Rightarrow> (t @ t', r)))"

definition py_seq :: "'a comp \<Rightarrow> 'b comp \<Rightarrow> 'b comp" where
  "py_seq m k = py_bind m (\<lambda>_. k)"

text \<open>\<open>try: m except C as e: h e\<close>, where \<open>catches\<close> is the test for class \<open>C\<close>.\<close>

definition try_except :: "'a comp \<Rightarrow> (exn \<Rightarrow> bool) \<Rightarrow> (exn \<Rightarrow> 'a comp) \<Rightarrow> 'a comp" where
  "try_except m catches h =
     (case m of
        (t, Inl e) \<Rightarrow>
          (if catches e then (case h e of (t', r) \<Rightarrow> (t @ t', r)) else (t, Inl e))
      | (t, Inr x) \<Rightarrow> (t, Inr x))"

text \<open>
  \<open>try: m finally: fin\<close>: the final part runs on every path; an exception of its own
  replaces the outcome of \<open>m\<close>.
\<close>

definition try_finally :: "'a comp \<Rightarrow> unit comp \<Rightarrow> 'a comp" where
  "try_finally m fin =
     (case m of
        (t, r) \<Rightarrow>
          (case fin of
             (t', Inl e') \<Rightarrow> (t @ t', Inl e')
           | (t', Inr _) \<Rightarrow> (t @ t', r)))"

section \<open>The outside world and the configuration\<close>

text \<open>
  The library functions and the outcomes of the calls on the database and on the
  broker are parameters: a world fixes what each call of one run returns or raises
  (\<open>None\<close>: the call returns).
\<close>

record world =
  json_loads :: "string \<Rightarrow> exn + pyval"
  json_dumps :: "pyval \<Rightarrow> exn + string"
  str_mod :: "string \<Rightarrow> pyval list \<Rightarrow> exn + string"
  datetime_fromisoformat :: "string \<Rightarrow> exn + pyval"
  datetime_fromtimestamp :: "pyval \<Rightarrow> exn + pyval"
  psycopg_connect :: "exn option"
  conn_cursor :: "exn option"
  cursor_execute :: "string \<Rightarrow> pyval list \<Rightarrow> exn option"
  conn_commit :: "exn option"
  basic_ack :: "exn option"
  basic_publish :: "exn option"

text \<open>The environment variables read by \<open>config.py\<close> and by \<open>app.py\<close>.\<close>

record config =
  RABBITMQ_HOST :: string
  RABBITMQ_USER :: string
  RABBITMQ_PASS :: string
  POSTGRES_QUEUE :: string
  POSTGRES_HOST :: string
  POSTGRES_DB :: "string option"
  POSTGRES_USER :: string
  POSTGRES_PASSWORD :: "string option"
  POSTGRES_TABLE :: "string option"
  MESSAGES_TABLE :: string
  SENT_MESSAGES_TABLE :: string
  GROUPME_TABLE :: string
  GROUPME_CALLBACK_TABLE :: string

text \<open>Lifting a library function's answer into a computation.\<close>

definition lift :: "exn + 'a \<Rightarrow> 'a comp" where
  "lift r = ([], r)"

section \<open>database.py\<close>

text \<open>
  \<open>with get_db_connection() as connection: body\<close>. The generator connects, yields to
  the body, logs and re-raises an \<open>Exception\<close> (of the connection attempt or thrown
  in from the body), and in its \<open>finally\<close> closes the connection when there is one
  and the body has not closed it already.
\<close>

definition get_db_connection :: "world \<Rightarrow> config \<Rightarrow> 'a comp \<Rightarrow> 'a comp" where
  "get_db_connection w cfg body =
     (case call (PsycopgConnect (POSTGRES_HOST cfg) (POSTGRES_DB cfg) (POSTGRES_USER cfg)
                   (POSTGRES_PASSWORD cfg)) (psycopg_connect w) of
        (t0, Inl e) \<Rightarrow>
          (t0 @ (if is_Exception e
                 then [Log ERROR ''Error establishing database connection: %s'' [ArgExn e]]
                 else []),
           Inl e)
      | (t0, Inr _) \<Rightarrow>
          (case body of
             (t, r) \<Rightarrow>
               (t0 @ t
                  @ (case r of
                       Inl e \<Rightarrow>
                         (if is_Exception e
                          then [Log ERROR ''Error establishing database connection: %s''
                                  [ArgExn e]]
                          else [])
                     | Inr _ \<Rightarrow> [])
                  @ (if ConnClose \<in> set t then []
                     else [ConnClose, Log DEBUG ''Database connection closed.'' []]),
                r)))"

text \<open>The text of the statement: table, joined columns, one \<open>%s\<close> per value.\<close>

definition placeholders :: "nat \<Rightarrow> string" where
  "placeholders n = py_join '', '' (replicate n ''%s'')"

definition build_insert_query :: "string \<Rightarrow> string list \<Rightarrow> pyval list \<Rightarrow> string \<times> pyval list" where
  "build_insert_query table_name columns vals =
     (''\<newline>        INSERT INTO '' @ table_name @ '' ('' @ py_join '', '' columns
        @ '')\<newline>        VALUES ('' @ py_join '', '' (replicate (length vals) ''%s'')
        @ '')\<newline>    '',
      vals)"

text \<open>
  \<open>execute_query\<close>: the resolved text \<open>query % tuple(values)\<close> is only logged; the
  cursor gets the query and the values apart. A \<open>DatabaseError\<close> is logged and
  raised again.
\<close>

definition execute_query :: "world \<Rightarrow> string \<Rightarrow> pyval list \<Rightarrow> unit comp" where
  "execute_query w query vals =
     try_except
       (py_bind (lift (str_mod w query vals)) (\<lambda>resolved_query.
        py_seq (logger_log DEBUG ''Executing query: %s'' [ArgVal (PStr resolved_query)])
               (call (CursorExecute query vals) (cursor_execute w query vals))))
       is_DatabaseError
       (\<lambda>e. py_seq (logger_log ERROR ''Database error: %s'' [ArgExn e]) (py_raise e))"

section \<open>handlers.py\<close>

text \<open>\<open>f'"{name}"'\<close>: the name between double quotes.\<close>

definition quoted :: "string \<Rightarrow> string" where
  \<open>quoted name = ''"'' @ name @ ''"''\<close>

text \<open>
  The loop over the location keys, which \<open>handle_twilio_sms\<close> and the callback of
  \<open>app.py\<close> share word for word: a key whose value is true in Python's sense appends
  its quoted name to the columns and its value to the values.
\<close>

definition location_step :: "pydict \<Rightarrow> string list \<times> pyval list \<Rightarrow> string \<Rightarrow> string list \<times> pyval list" where
  "location_step message acc loc_type =
     (case acc of
        (location_columns, location_values) \<Rightarrow>
          (if truthy (dict_get message loc_type)
           then (location_columns @ [quoted loc_type],
                 location_values @ [dict_get message loc_type])
           else (location_columns, location_values)))"

definition location_fields :: "pydict \<Rightarrow> string list \<Rightarrow> string list \<times> pyval list" where
  "location_fields message loc_types = foldl (location_step message) ([], []) loc_types"

text \<open>
  The loop \<open>for i in range(10)\<close> over the media keys \<open>MediaContentType{i}\<close> and
  \<open>MediaUrl{i}\<close>. The two sources differ in the column names only, which are the
  parameters \<open>type_column\<close> and \<open>url_column\<close>.
\<close>

definition media_step ::
  "(nat \<Rightarrow> string) \<Rightarrow> (nat \<Rightarrow> string) \<Rightarrow> pydict \<Rightarrow> string list \<times> pyval list \<Rightarrow> nat
     \<Rightarrow> string list \<times> pyval list" where
  "media_step type_column url_column message acc i =
     (case acc of
        (media_columns, media_values) \<Rightarrow>
          (let media_type_key = ''MediaContentType'' @ str_nat i;
               media_url_key = ''MediaUrl'' @ str_nat i;
               (media_columns1, media_values1) =
                 (if truthy (dict_get message media_type_key)
                  then (media_columns @ [type_column i],
                        media_values @ [dict_get message media_type_key])
                  else (media_columns, media_values))
           in (if truthy (dict_get message media_url_key)
               then (media_columns1 @ [url_column i],
                     media_values1 @ [dict_get message media_url_key])
               else (media_columns1, media_values1))))"

definition media_fields ::
  "(nat \<Rightarrow> string) \<Rightarrow> (nat \<Rightarrow> string) \<Rightarrow> pydict \<Rightarrow> string list \<times> pyval list" where
  "media_fields type_column url_column message =
     foldl (media_step type_column url_column message) ([], []) [0..<10]"

definition handle_twilio_sms_loc_types :: "string list" where
  "handle_twilio_sms_loc_types = [''from_city'', ''from_state'', ''from_country'', ''from_zip'']"

definition handle_twilio_sms_type_column :: "nat \<Rightarrow> string" where
  "handle_twilio_sms_type_column i = ''media_content_type_'' @ str_nat i"

definition handle_twilio_sms_url_column :: "nat \<Rightarrow> string" where
  "handle_twilio_sms_url_column i = ''media_url_'' @ str_nat i"

definition handle_twilio_sms_columns :: "pydict \<Rightarrow> string list" where
  "handle_twilio_sms_columns message =
     [''message_sid'', ''account_sid'', ''messagingservice_sid'', ''from_num'', ''to_num'',
      ''body'', ''num_segments'', ''num_media'', ''api_version'', ''sender_name'',
      ''wbor_message_id'']
     @ fst (location_fields message handle_twilio_sms_loc_types)
     @ fst (media_fields handle_twilio_sms_type_column handle_twilio_sms_url_column message)"

definition handle_twilio_sms_values :: "pydict \<Rightarrow> pyval list" where
  "handle_twilio_sms_values message =
     [dict_get message ''MessageSid'', dict_get message ''AccountSid'',
      dict_get message ''MessagingServiceSid'', dict_get message ''From'',
      dict_get message ''To'', dict_get message ''Body'', dict_get message ''NumSegments'',
      dict_get message ''NumMedia'', dict_get message ''ApiVersion'',
      dict_get message ''SenderName'', dict_get message ''wbor_message_id'']
     @ snd (location_fields message handle_twilio_sms_loc_types)
     @ snd (media_fields handle_twilio_sms_type_column handle_twilio_sms_url_column message)"

text \<open>
  Every handler takes the decoded message; \<open>message.get\<close> on a value that is not a
  dictionary raises \<open>AttributeError\<close>.
\<close>

definition handle_twilio_sms :: "world \<Rightarrow> config \<Rightarrow> pyval \<Rightarrow> unit comp" where
  "handle_twilio_sms w cfg message =
     py_seq (logger_log DEBUG ''Handling twilio.sms.incoming message: %s'' [ArgVal message])
       (case message of
          PDict d \<Rightarrow>
            (case build_insert_query (MESSAGES_TABLE cfg) (handle_twilio_sms_columns d)
                    (handle_twilio_sms_values d) of
               (query, vals) \<Rightarrow>
                 py_seq (logger_log DEBUG ''Executing `twilio.sms.incoming` query: %s''
                           [ArgVal (PStr query)])
                        (execute_query w query vals))
        | _ \<Rightarrow> py_raise AttributeError)"

text \<open>\<open>timestamp_str.replace("Z", "+00:00")\<close>: only a string has \<open>replace\<close>.\<close>

definition replace_Z :: "pyval \<Rightarrow> string comp" where
  "replace_Z timestamp_str =
     (case timestamp_str of
        PStr s \<Rightarrow> py_return (concat (map (\<lambda>c. if c = CHR ''Z'' then ''+00:00'' else [c]) s))
      | _ \<Rightarrow> py_raise AttributeError)"

definition handle_outgoing_twilio_sms_columns :: "string list" where
  "handle_outgoing_twilio_sms_columns =
     [quoted ''wbor_message_id'', quoted ''recipient_number'', quoted ''body'',
      quoted ''timestamp'']"

definition handle_outgoing_twilio_sms_values :: "pydict \<Rightarrow> pyval \<Rightarrow> pyval list" where
  "handle_outgoing_twilio_sms_values message timestamp =
     [dict_get message ''wbor_message_id'', dict_get message ''recipient_number'',
      dict_get message ''body'', timestamp]"

definition handle_outgoing_twilio_sms :: "world \<Rightarrow> config \<Rightarrow> pyval \<Rightarrow> unit comp" where
  "handle_outgoing_twilio_sms w cfg message =
     py_seq (logger_log DEBUG ''Handling twilio.sms.outgoing message: %s'' [ArgVal message])
       (case message of
          PDict d \<Rightarrow>
            py_bind (replace_Z (dict_get d ''timestamp'')) (\<lambda>iso.
            py_bind (lift (datetime_fromisoformat w iso)) (\<lambda>timestamp.
              (case build_insert_query (SENT_MESSAGES_TABLE cfg)
                      handle_outgoing_twilio_sms_columns
                      (handle_outgoing_twilio_sms_values d timestamp) of
                 (query, vals) \<Rightarrow>
                   py_seq (logger_log DEBUG ''Executing `twilio.sms.outgoing` query: %s''
                             [ArgVal (PStr query)])
                          (execute_query w query vals))))
        | _ \<Rightarrow> py_raise AttributeError)"

definition handle_message_event_columns :: "string list" where
  "handle_message_event_columns =
     [quoted ''text'', quoted ''bot_id'', quoted ''code'', quoted ''type'',
      quoted ''wbor_message_id'', quoted ''picture_url'', quoted ''source'']"

definition handle_message_event_values :: "pydict \<Rightarrow> pyval list" where
  "handle_message_event_values message =
     [dict_get message ''text'', dict_get message ''bot_id'', dict_get message ''statuscode'',
      dict_get message ''type'', dict_get message ''wbor_message_id'',
      dict_get message ''picture_url'', dict_get message ''source'']"

definition handle_message_event :: "world \<Rightarrow> config \<Rightarrow> pyval \<Rightarrow> unit comp" where
  "handle_message_event w cfg message =
     py_seq (logger_log DEBUG ''Handling groupme.msg message: %s'' [ArgVal message])
       (case message of
          PDict d \<Rightarrow>
            (case build_insert_query (GROUPME_TABLE cfg) handle_message_event_columns
                    (handle_message_event_values d) of
               (query, vals) \<Rightarrow>
                 py_seq (logger_log DEBUG ''Executing `groupme.msg` query: %s'' [ArgVal (PStr query)])
                        (execute_query w query vals))
        | _ \<Rightarrow> py_raise AttributeError)"

definition handle_image_event_columns :: "string list" where
  "handle_image_event_columns =
     [quoted ''raw_img'', quoted ''bot_id'', quoted ''code'', quoted ''type'',
      quoted ''wbor_message_id'', quoted ''picture_url'', quoted ''text'', quoted ''source'']"

definition handle_image_event_values :: "pydict \<Rightarrow> pyval list" where
  "handle_image_event_values message =
     [dict_get message ''raw_img'', dict_get message ''bot_id'',
      dict_get message ''statuscode'', dict_get message ''type'',
      dict_get message ''wbor_message_id'', dict_get message ''picture_url'',
      dict_get message ''text'', dict_get message ''source'']"

definition handle_image_event :: "world \<Rightarrow> config \<Rightarrow> pyval \<Rightarrow> unit comp" where
  "handle_image_event w cfg message =
     py_seq (logger_log DEBUG ''Handling groupme.img message: %s'' [ArgVal message])
       (case message of
          PDict d \<Rightarrow>
            (case build_insert_query (GROUPME_TABLE cfg) handle_image_event_columns
                    (handle_image_event_values d) of
               (query, vals) \<Rightarrow>
                 py_seq (logger_log DEBUG ''Executing `groupme.img` query: %s'' [ArgVal (PStr query)])
                        (execute_query w query vals))
        | _ \<Rightarrow> py_raise AttributeError)"

definition handle_callback_event_columns :: "string list" where
  "handle_callback_event_columns =
     [quoted ''attachments'', quoted ''avatar_url'', quoted ''created_at'', quoted ''group_id'',
      quoted ''id'', quoted ''name'', quoted ''sender_id'', quoted ''sender_type'',
      quoted ''source_guid'', quoted ''system'', quoted ''text'', quoted ''user_id'']"

definition handle_callback_event_values :: "pydict \<Rightarrow> pyval \<Rightarrow> string \<Rightarrow> pyval list" where
  "handle_callback_event_values message created_at attachments =
     [PStr attachments, dict_get message ''avatar_url'', created_at,
      dict_get message ''group_id'', dict_get message ''id'', dict_get message ''name'',
      dict_get message ''sender_id'', dict_get message ''sender_type'',
      dict_get message ''source_guid'', dict_get message ''system'',
      dict_get message ''text'', dict_get message ''user_id'']"

definition handle_callback_event :: "world \<Rightarrow> config \<Rightarrow> pyval \<Rightarrow> unit comp" where
  "handle_callback_event w cfg message =
     py_seq (logger_log DEBUG ''Handling groupme.callback message: %s'' [ArgVal message])
       (case message of
          PDict d \<Rightarrow>
            py_bind (lift (datetime_fromtimestamp w (dict_get d ''created_at''))) (\<lambda>created_at.
            py_bind (lift (json_dumps w (dict_get_default d ''attachments'' (PList []))))
              (\<lambda>attachments.
              (case build_insert_query (GROUPME_CALLBACK_TABLE cfg)
                      handle_callback_event_columns
                      (handle_callback_event_values d created_at attachments) of
                 (query, vals) \<Rightarrow>
                   py_seq (logger_log DEBUG ''Executing `groupme.callback` query: %s''
                             [ArgVal (PStr query)])
                          (execute_query w query vals))))
        | _ \<Rightarrow> py_raise AttributeError)"

text \<open>The handlers that insert nothing.\<close>

definition handle_postgres_data :: "world \<Rightarrow> config \<Rightarrow> pyval \<Rightarrow> unit comp" where
  "handle_postgres_data w cfg message =
     logger_log CRITICAL ''Received message with type 'postgres'. No handler implemented.'' []"

definition handle_twilio_voice_intelligence :: "world \<Rightarrow> config \<Rightarrow> pyval \<Rightarrow> unit comp" where
  "handle_twilio_voice_intelligence w cfg message =
     logger_log DEBUG ''Handling twilio.voice-intelligence message: %s'' [ArgVal message]"

definition handle_twilio_call_events :: "world \<Rightarrow> config \<Rightarrow> pyval \<Rightarrow> unit comp" where
  "handle_twilio_call_events w cfg message =
     logger_log DEBUG ''Handling twilio.call-events message: %s'' [ArgVal message]"

text \<open>The registry, in the order of the decorators.\<close>

definition MESSAGE_HANDLERS :: "(string \<times> (world \<Rightarrow> config \<Rightarrow> pyval \<Rightarrow> unit comp)) list" where
  "MESSAGE_HANDLERS =
     [(''postgres'', handle_postgres_data),
      (''twilio.sms.incoming'', handle_twilio_sms),
      (''twilio.sms.outgoing'', handle_outgoing_twilio_sms),
      (''twilio.voice-intelligence'', handle_twilio_voice_intelligence),
      (''twilio.call-events'', handle_twilio_call_events),
      (''groupme.msg'', handle_message_event),
      (''groupme.img'', handle_image_event),
      (''groupme.callback'', handle_callback_event)]"

section \<open>app.py\<close>

datatype connection = Connection

text \<open>\<open>connect_to_postgres\<close>: the connection, or \<open>None\<close> after a \<open>psycopg.Error\<close>.\<close>

definition connect_to_postgres :: "world \<Rightarrow> config \<Rightarrow> connection option comp" where
  "connect_to_postgres w cfg =
     try_except
       (py_seq (call (PsycopgConnect (POSTGRES_HOST cfg) (POSTGRES_DB cfg) (POSTGRES_USER cfg)
                        (POSTGRES_PASSWORD cfg)) (psycopg_connect w))
        (py_seq (logger_log INFO ''Connected to Postgres database.'' [])
                (py_return (Some Connection))))
       is_psycopg_Error
       (\<lambda>e. py_seq (logger_log ERROR ''Error connecting to Postgres: %s'' [ArgExn e])
                   (py_return None))"

definition callback_loc_types :: "string list" where
  "callback_loc_types = [''FromCity'', ''FromState'', ''FromCountry'', ''FromZip'']"

definition callback_type_column :: "nat \<Rightarrow> string" where
  "callback_type_column i = quoted (''MediaContentType'' @ str_nat i)"

definition callback_url_column :: "nat \<Rightarrow> string" where
  "callback_url_column i = quoted (''MediaUrl'' @ str_nat i)"

definition callback_columns :: "pydict \<Rightarrow> string list" where
  "callback_columns message =
     [quoted ''MessageSid'', quoted ''AccountSid'', quoted ''MessagingServiceSid'',
      quoted ''From'', quoted ''To'', quoted ''Body'', quoted ''NumSegments'',
      quoted ''NumMedia'', quoted ''ApiVersion'']
     @ fst (location_fields message callback_loc_types)
     @ fst (media_fields callback_type_column callback_url_column message)"

definition callback_values :: "pydict \<Rightarrow> pyval list" where
  "callback_values message =
     [dict_get message ''MessageSid'', dict_get message ''AccountSid'',
      dict_get message ''MessagingServiceSid'', dict_get message ''From'',
      dict_get message ''To'', dict_get message ''Body'', dict_get message ''NumSegments'',
      dict_get message ''NumMedia'', dict_get message ''ApiVersion'']
     @ snd (location_fields message callback_loc_types)
     @ snd (media_fields callback_type_column callback_url_column message)"

text \<open>The statement text of the callback, with the table of \<open>POSTGRES_TABLE\<close>.\<close>

definition callback_query :: "config \<Rightarrow> string list \<Rightarrow> pyval list \<Rightarrow> string" where
  "callback_query cfg columns vals =
     ''\<newline>                        INSERT INTO '' @ str_opt (POSTGRES_TABLE cfg) @ '' (''
       @ py_join '', '' columns
       @ '')\<newline>                        VALUES (''
       @ py_join '', '' (replicate (length vals) ''%s'')
       @ '')\<newline>                    ''"

text \<open>
  The block \<open>with conn.cursor() as cursor:\<close> from the arity check on, for the column
  and value lists built before it: the check raises \<open>ValueError\<close>, otherwise the
  statement is executed; the cursor is closed on every way out of the block.
\<close>

definition callback_insert :: "world \<Rightarrow> config \<Rightarrow> string list \<Rightarrow> pyval list \<Rightarrow> unit comp" where
  "callback_insert w cfg columns vals =
     py_seq (call ConnCursor (conn_cursor w))
       (try_finally
          (if length columns \<noteq> length vals then py_raise ValueError
           else call (CursorExecute (callback_query cfg columns vals) vals)
                     (cursor_execute w (callback_query cfg columns vals) vals))
          (call CursorClose None))"

text \<open>
  The inner \<open>try\<close> of the callback: insert, commit, log, acknowledge; a
  \<open>DatabaseError\<close> is logged; the connection is closed in the \<open>finally\<close>.
\<close>

definition callback_persist ::
  "world \<Rightarrow> config \<Rightarrow> nat \<Rightarrow> string list \<Rightarrow> pyval list \<Rightarrow> unit comp" where
  "callback_persist w cfg delivery_tag columns vals =
     try_finally
       (try_except
          (py_seq (callback_insert w cfg columns vals)
          (py_seq (call ConnCommit (conn_commit w))
          (py_seq (logger_log INFO ''Inserted message into Postgres.'' [])
                  (call (BasicAck delivery_tag) (basic_ack w)))))
          is_DatabaseError
          (\<lambda>db_error. logger_log ERROR ''Database error during insertion: %s'' [ArgExn db_error]))
       (call ConnClose None)"

text \<open>
  The callback of the primary queue. A decoded body that is not a dictionary has no
  \<open>get\<close>, so the first \<open>message.get\<close> raises \<open>AttributeError\<close>.
\<close>

definition callback :: "world \<Rightarrow> config \<Rightarrow> nat \<Rightarrow> string \<Rightarrow> unit comp" where
  "callback w cfg delivery_tag body =
     py_seq (logger_log INFO ''Callback triggered.'' [])
       (try_except
          (py_bind (lift (json_loads w body)) (\<lambda>message.
           py_seq (logger_log DEBUG ''Received message: %s'' [ArgVal message])
             (case message of
                PDict d \<Rightarrow>
                  py_seq (logger_log DEBUG ''Processing message from %s'' [ArgVal (dict_get d ''From'')])
                    (py_bind (connect_to_postgres w cfg) (\<lambda>conn.
                       (case conn of
                          Some _ \<Rightarrow>
                            callback_persist w cfg delivery_tag (callback_columns d)
                              (callback_values d)
                        | None \<Rightarrow> logger_log ERROR ''No database connection available.'' [])))
              | _ \<Rightarrow> py_raise AttributeError)))
          is_JSONDecodeError_or_KeyError
          (\<lambda>e. logger_log ERROR ''Failed to process message: %s'' [ArgExn e]))"

text \<open>The callback of the dead-letter queue: publish the body again, then acknowledge.\<close>

definition retry_callback :: "world \<Rightarrow> config \<Rightarrow> nat \<Rightarrow> string \<Rightarrow> unit comp" where
  "retry_callback w cfg delivery_tag body =
     py_seq (logger_log INFO ''Retrying message from dead-letter queue.'' [])
       (py_seq (call (BasicPublish [] (POSTGRES_QUEUE cfg) body) (basic_publish w))
               (call (BasicAck delivery_tag) (basic_ack w)))"

text \<open>
  One pass of the \<open>while True\<close> loop of \<open>consume_messages\<close> is scripted by the
  outcome of each broker call, the deliveries that arrive while \<open>start_consuming\<close>
  runs (each with the world its callback meets), and how \<open>start_consuming\<close> ends
  after them: it keeps blocking, it returns, or it raises.
\<close>

datatype ending = Blocks | Returns | Raises exn

record attempt =
  blocking_connection :: "exn option"
  connection_channel :: "exn option"
  exchange_declare :: "exn option"
  dead_letter_queue_declare :: "exn option"
  queue_bind :: "exn option"
  queue_declare :: "exn option"
  basic_consume :: "exn option"
  deliveries :: "(world \<times> nat \<times> string) list"
  after_deliveries :: ending

datatype consuming = StillConsuming | Stopped

text \<open>
  \<open>channel.start_consuming()\<close>: the callback runs for each delivery in turn; an
  exception of the callback leaves \<open>start_consuming\<close>.
\<close>

fun deliver :: "config \<Rightarrow> (world \<times> nat \<times> string) list \<Rightarrow> unit comp" where
  "deliver cfg [] = py_return ()"
| "deliver cfg ((w, delivery_tag, body) # ds) =
     py_seq (callback w cfg delivery_tag body) (deliver cfg ds)"

definition start_consuming :: "config \<Rightarrow> attempt \<Rightarrow> consuming comp" where
  "start_consuming cfg a =
     py_seq (call StartConsuming None)
       (py_seq (deliver cfg (deliveries a))
          (case after_deliveries a of
             Blocks \<Rightarrow> py_return StillConsuming
           | Returns \<Rightarrow> py_return Stopped
           | Raises e \<Rightarrow> py_raise e))"

text \<open>The body of the \<open>try\<close> in \<open>consume_messages\<close>.\<close>

definition consume_attempt :: "config \<Rightarrow> attempt \<Rightarrow> consuming comp" where
  "consume_attempt cfg a =
     py_seq (call (BlockingConnection (RABBITMQ_HOST cfg) (RABBITMQ_USER cfg) (RABBITMQ_PASS cfg))
               (blocking_connection a))
    (py_seq (call ConnectionChannel (connection_channel a))
    (py_seq (call (ExchangeDeclare ''dead_letter_exchange'' ''direct'') (exchange_declare a))
    (py_seq (call (QueueDeclare ''dead_letter_queue'' True []) (dead_letter_queue_declare a))
    (py_seq (call (QueueBind ''dead_letter_exchange'' ''dead_letter_queue'') (queue_bind a))
    (py_seq (call (QueueDeclare (POSTGRES_QUEUE cfg) True
                     [(''x-message-ttl'', PInt 60000),
                      (''x-dead-letter-exchange'', PStr ''dead_letter_exchange'')])
               (queue_declare a))
    (py_seq (call (BasicConsume (POSTGRES_QUEUE cfg) False) (basic_consume a))
    (py_seq (logger_log INFO ''Now ready to consume messages.'' [])
            (start_consuming cfg a))))))))"

text \<open>
  \<open>consume_messages\<close> on a script of passes. The loop has no exit of its own: it
  stays in \<open>start_consuming\<close> (\<open>Consuming\<close>), it is about to start the next pass when
  the script ends (\<open>NextAttempt\<close>), or an exception that is not an
  \<open>AMQPConnectionError\<close> leaves the function (\<open>Died\<close>).
\<close>

datatype loop_status = Consuming | NextAttempt | Died exn

fun consume_messages :: "config \<Rightarrow> attempt list \<Rightarrow> event list \<times> loop_status" where
  "consume_messages cfg [] = ([], NextAttempt)"
| "consume_messages cfg (a # as) =
     (case py_seq (logger_log DEBUG ''Attempting to connect to RabbitMQ...'' [])
             (consume_attempt cfg a) of
        (t, Inr StillConsuming) \<Rightarrow> (t, Consuming)
      | (t, Inr Stopped) \<Rightarrow> (case consume_messages cfg as of (t', s) \<Rightarrow> (t @ t', s))
      | (t, Inl e) \<Rightarrow>
          (if is_AMQPConnectionError e
           then (case consume_messages cfg as of
                   (t', s) \<Rightarrow>
                     (t @ [Log ERROR ''Failed to connect to RabbitMQ: %s'' [ArgExn e],
                           Log DEBUG ''Retrying in 5 seconds...'' [],
                           Sleep 5] @ t',
                      s))
           else (t, Died e)))"

section \<open>Example inputs\<close>

text \<open>The defaults of \<open>os.getenv\<close>; variables without a default are unset.\<close>

definition default_config :: config where
  "default_config =
     \<lparr>RABBITMQ_HOST = ''wbor-rabbitmq'', RABBITMQ_USER = ''guest'', RABBITMQ_PASS = ''guest'',
      POSTGRES_QUEUE = ''postgres'', POSTGRES_HOST = ''wbor-postgres'', POSTGRES_DB = None,
      POSTGRES_USER = ''postgres'', POSTGRES_PASSWORD = None, POSTGRES_TABLE = None,
      MESSAGES_TABLE = ''messages'', SENT_MESSAGES_TABLE = ''sent_sms'',
      GROUPME_TABLE = ''groupme'', GROUPME_CALLBACK_TABLE = ''groupme_callbacks''\<rparr>"

text \<open>
  Four bodies and what \<open>json.loads\<close> answers on them: an object, an array, a text
  that is not JSON, and the single byte \<open>0xFF\<close>, which is not UTF-8.
\<close>

definition sms_body :: string where
  \<open>sms_body = ''{"From": "+12075550100", "Body": "hi", "FromCity": "BRUNSWICK", "MediaUrl0": "https://example.org/0.jpg"}''\<close>

definition sms_message :: pydict where
  "sms_message =
     [(''From'', PStr ''+12075550100''), (''Body'', PStr ''hi''),
      (''FromCity'', PStr ''BRUNSWICK''), (''MediaUrl0'', PStr ''https://example.org/0.jpg'')]"

definition array_body :: string where
  "array_body = ''[]''"

definition malformed_body :: string where
  "malformed_body = ''{''"

definition non_utf8_body :: string where
  "non_utf8_body = [CHR 0xFF]"

definition example_loads :: "string \<Rightarrow> exn + pyval" where
  "example_loads body =
     (if body = sms_body then Inr (PDict sms_message)
      else if body = array_body then Inr (PList [])
      else if body = non_utf8_body then Inl UnicodeDecodeError
      else Inl JSONDecodeError)"

text \<open>
  A world in which every call on the database and on the broker returns. The library
  functions other than \<open>json.loads\<close> are not called by \<open>app.py\<close>; in this world
  they answer as Python does on the empty list, on a text without values and without a
  percent sign, on the empty string and on \<open>None\<close>, and raise on every other input.
\<close>

definition quiet_world :: world where
  "quiet_world =
     \<lparr>json_loads = example_loads,
      json_dumps = (\<lambda>v. if v = PList [] then Inr ''[]'' else Inl TypeError),
      str_mod = (\<lambda>query vals. if vals = [] \<and> CHR ''%'' \<notin> set query then Inr query
                               else Inl TypeError),
      datetime_fromisoformat = (\<lambda>s. Inl ValueError),
      datetime_fromtimestamp = (\<lambda>v. Inl TypeError),
      psycopg_connect = None, conn_cursor = None, cursor_execute = (\<lambda>query vals. None),
      conn_commit = None, basic_ack = None, basic_publish = None\<rparr>"

text \<open>A world in which the insert is rejected by a constraint.\<close>

definition rejecting_world :: world where
  "rejecting_world = quiet_world\<lparr>cursor_execute := (\<lambda>query vals. Some PsycopgIntegrityError)\<rparr>"

text \<open>A world in which the insert raises an error that is not a \<open>DatabaseError\<close>.\<close>

definition broken_world :: world where
  "broken_world = quiet_world\<lparr>cursor_execute := (\<lambda>query vals. Some PsycopgInterfaceError)\<rparr>"

text \<open>A world in which Postgres cannot be reached.\<close>

definition unreachable_world :: world where
  "unreachable_world = quiet_world\<lparr>psycopg_connect := Some PsycopgOperationalError\<rparr>"

text \<open>A pass in which every broker call returns, for given deliveries and ending.\<close>

definition quiet_attempt :: "(world \<times> nat \<times> string) list \<Rightarrow> ending \<Rightarrow> attempt" where
  "quiet_attempt ds after =
     \<lparr>blocking_connection = None, connection_channel = None, exchange_declare = None,
      dead_letter_queue_declare = None, queue_bind = None, queue_declare = None,
      basic_consume = None, deliveries = ds, after_deliveries = after\<rparr>"


section \<open>Notions used in the statements\<close>

text \<open>The part of a trace before the first acknowledgment.\<close>

definition before_first_ack :: "event list \<Rightarrow> event list" where
  "before_first_ack t = takeWhile (\<lambda>ev. \<not> is_ack ev) t"

text \<open>What the callback does up to a successful connection to Postgres.\<close>

definition callback_prelude :: "config \<Rightarrow> pydict \<Rightarrow> event list" where
  "callback_prelude cfg d =
     [Log INFO ''Callback triggered.'' [],
      Log DEBUG ''Received message: %s'' [ArgVal (PDict d)],
      Log DEBUG ''Processing message from %s'' [ArgVal (dict_get d ''From'')],
      PsycopgConnect (POSTGRES_HOST cfg) (POSTGRES_DB cfg) (POSTGRES_USER cfg)
        (POSTGRES_PASSWORD cfg),
      Log INFO ''Connected to Postgres database.'' []]"

text \<open>
  The first exception among the calls of the insert block of the callback, in their
  order: opening the cursor, executing the statement, committing, acknowledging.
\<close>

definition insert_failure :: "world \<Rightarrow> config \<Rightarrow> pydict \<Rightarrow> exn option" where
  "insert_failure w cfg d =
     (case conn_cursor w of
        Some e \<Rightarrow> Some e
      | None \<Rightarrow>
          (case cursor_execute w (callback_query cfg (callback_columns d) (callback_values d))
                  (callback_values d) of
             Some e \<Rightarrow> Some e
           | None \<Rightarrow> (case conn_commit w of Some e \<Rightarrow> Some e | None \<Rightarrow> basic_ack w)))"

text \<open>The two message keys of media index \<open>i\<close>, each with its column.\<close>

definition media_keys :: "(nat \<Rightarrow> string) \<Rightarrow> (nat \<Rightarrow> string) \<Rightarrow> nat \<Rightarrow> (string \<times> string) list" where
  "media_keys type_column url_column i =
     [(''MediaContentType'' @ str_nat i, type_column i),
      (''MediaUrl'' @ str_nat i, url_column i)]"

text \<open>The number of \<open>%s\<close> in a text.\<close>

fun count_placeholders :: "string \<Rightarrow> nat" where
  "count_placeholders [] = 0"
| "count_placeholders [c] = 0"
| "count_placeholders (c # c' # cs) =
     (if c = CHR ''%'' \<and> c' = CHR ''s'' then Suc (count_placeholders cs)
      else count_placeholders (c' # cs))"


text \<open>The broker calls of a pass up to and including the entry into \<open>start_consuming\<close>.\<close>

definition consume_setup :: "config \<Rightarrow> event list" where
  "consume_setup cfg =
     [BlockingConnection (RABBITMQ_HOST cfg) (RABBITMQ_USER cfg) (RABBITMQ_PASS cfg),
      ConnectionChannel,
      ExchangeDeclare ''dead_letter_exchange'' ''direct'',
      QueueDeclare ''dead_letter_queue'' True [],
      QueueBind ''dead_letter_exchange'' ''dead_letter_queue'',
      QueueDeclare (POSTGRES_QUEUE cfg) True
        [(''x-message-ttl'', PInt 60000),
         (''x-dead-letter-exchange'', PStr ''dead_letter_exchange'')],
      BasicConsume (POSTGRES_QUEUE cfg) False,
      Log INFO ''Now ready to consume messages.'' [],
      StartConsuming]"

text \<open>The outer \<open>try\<close> of the callback around the insert block, after the prelude.\<close>

definition callback_outer :: "config \<Rightarrow> pydict \<Rightarrow> unit comp \<Rightarrow> unit comp" where
  "callback_outer cfg d block =
     try_except (py_seq (callback_prelude cfg d, Inr ()) block)
       is_JSONDecodeError_or_KeyError
       (\<lambda>e. logger_log ERROR ''Failed to process message: %s'' [ArgExn e])"

section \<open>Unfolding the sequencing operators\<close>

lemmas comp_defs = py_seq_def py_bind_def try_except_def try_finally_def call_def logger_log_def
  py_return_def py_raise_def lift_def

section \<open>The column and value lists\<close>

lemma foldl_location_step:
  "foldl (location_step d) (cs, vs) ks =
     (cs @ map quoted (filter (\<lambda>k. truthy (dict_get d k)) ks),
      vs @ map (dict_get d) (filter (\<lambda>k. truthy (dict_get d k)) ks))"
  by (induction ks arbitrary: cs vs) (simp_all add: location_step_def)

lemma location_fields_eq:
  "location_fields d ks =
     (map quoted (filter (\<lambda>k. truthy (dict_get d k)) ks),
      map (dict_get d) (filter (\<lambda>k. truthy (dict_get d k)) ks))"
  by (simp add: location_fields_def foldl_location_step)

lemma foldl_media_step:
  "foldl (media_step tc uc d) (cs, vs) js =
     (cs @ map snd (filter (\<lambda>(k, c). truthy (dict_get d k)) (concat (map (media_keys tc uc) js))),
      vs @ map (\<lambda>(k, c). dict_get d k)
             (filter (\<lambda>(k, c). truthy (dict_get d k)) (concat (map (media_keys tc uc) js))))"
  by (induction js arbitrary: cs vs) (simp_all add: media_step_def media_keys_def Let_def)

lemma media_fields_eq:
  "media_fields tc uc d =
     (map snd (filter (\<lambda>(k, c). truthy (dict_get d k)) (concat (map (media_keys tc uc) [0..<10]))),
      map (\<lambda>(k, c). dict_get d k)
        (filter (\<lambda>(k, c). truthy (dict_get d k)) (concat (map (media_keys tc uc) [0..<10]))))"
  by (simp only: media_fields_def foldl_media_step append_Nil)

lemma location_fields_length:
  "length (fst (location_fields d ks)) = length (snd (location_fields d ks))"
  by (simp add: location_fields_eq)

lemma media_fields_length:
  "length (fst (media_fields tc uc d)) = length (snd (media_fields tc uc d))"
  by (simp only: media_fields_eq fst_conv snd_conv length_map)

lemma callback_arity: "length (callback_columns d) = length (callback_values d)"
  by (simp add: callback_columns_def callback_values_def location_fields_length
        media_fields_length)

text \<open>
  C10. Every handler that inserts builds a column list and a value list of the same
  length, for every message (and every timestamp or attachment text computed on the
  way): the eleven, four, seven, eight and twelve static columns stand against as many
  static values, the nine static columns of the callback of \<open>app.py\<close> against nine, and
  the location and media loops append a column and its value together.
\<close>

theorem handlers_arity:
  "length (handle_twilio_sms_columns d) = length (handle_twilio_sms_values d)
   \<and> length handle_outgoing_twilio_sms_columns
       = length (handle_outgoing_twilio_sms_values d timestamp)
   \<and> length handle_message_event_columns = length (handle_message_event_values d)
   \<and> length handle_image_event_columns = length (handle_image_event_values d)
   \<and> length handle_callback_event_columns
       = length (handle_callback_event_values d created_at attachments)
   \<and> length (callback_columns d) = length (callback_values d)
   \<and> length (fst (location_fields d ks)) = length (snd (location_fields d ks))
   \<and> length (fst (media_fields tc uc d)) = length (snd (media_fields tc uc d))"
  by (simp add: handle_twilio_sms_columns_def handle_twilio_sms_values_def
        handle_outgoing_twilio_sms_columns_def handle_outgoing_twilio_sms_values_def
        handle_message_event_columns_def handle_message_event_values_def
        handle_image_event_columns_def handle_image_event_values_def
        handle_callback_event_columns_def handle_callback_event_values_def
        callback_columns_def callback_values_def
        location_fields_length media_fields_length)

section \<open>The callback of the primary queue\<close>

lemma callback_persist_cases:
  "callback_persist w cfg tag cols vals =
    (case conn_cursor w of
       Some e \<Rightarrow> ([ConnCursor] @ (if is_DatabaseError e then [Log ERROR ''Database error during insertion: %s'' [ArgExn e]] else []) @ [ConnClose],
                  if is_DatabaseError e then Inr () else Inl e)
     | None \<Rightarrow> 
        (if length cols \<noteq> length vals then ([ConnCursor, CursorClose, ConnClose], Inl ValueError)
         else (case cursor_execute w (callback_query cfg cols vals) vals of
            Some e \<Rightarrow> ([ConnCursor, CursorExecute (callback_query cfg cols vals) vals, CursorClose] @ (if is_DatabaseError e then [Log ERROR ''Database error during insertion: %s'' [ArgExn e]] else []) @ [ConnClose],
                  if is_DatabaseError e then Inr () else Inl e)
          | None \<Rightarrow> 
             (case conn_commit w of
                Some e \<Rightarrow> ([ConnCursor, CursorExecute (callback_query cfg cols vals) vals, CursorClose, ConnCommit] @ (if is_DatabaseError e then [Log ERROR ''Database error during insertion: %s'' [ArgExn e]] else []) @ [ConnClose],
                  if is_DatabaseError e then Inr () else Inl e)
              | None \<Rightarrow> 
                 (case basic_ack w of
                   Some e \<Rightarrow> ([ConnCursor, CursorExecute (callback_query cfg cols vals) vals, CursorClose, ConnCommit, Log INFO ''Inserted message into Postgres.'' [], BasicAck tag] @ (if is_DatabaseError e then [Log ERROR ''Database error during insertion: %s'' [ArgExn e]] else []) @ [ConnClose],
                  if is_DatabaseError e then Inr () else Inl e)
                   | None \<Rightarrow> ([ConnCursor, CursorExecute (callback_query cfg cols vals) vals, CursorClose, ConnCommit, Log INFO ''Inserted message into Postgres.'' [], BasicAck tag, ConnClose], Inr ()))))))"
  by (simp add: callback_persist_def callback_insert_def comp_defs split: option.splits)

lemma callback_not_decoded:
  "json_loads w body = Inl e \<Longrightarrow>
   callback w cfg tag body =
     (if is_JSONDecodeError_or_KeyError e
      then ([Log INFO ''Callback triggered.'' [], Log ERROR ''Failed to process message: %s'' [ArgExn e]], Inr ())
      else ([Log INFO ''Callback triggered.'' []], Inl e))"
  by (simp add: callback_def comp_defs)

lemma callback_not_dict:
  "json_loads w body = Inr m \<Longrightarrow> (\<forall>d. m \<noteq> PDict d) \<Longrightarrow>
   callback w cfg tag body =
     ([Log INFO ''Callback triggered.'' [], Log DEBUG ''Received message: %s'' [ArgVal m]], Inl AttributeError)"
  by (cases m) (simp_all add: callback_def comp_defs)

lemma callback_not_connected:
  "json_loads w body = Inr (PDict d) \<Longrightarrow> psycopg_connect w = Some e \<Longrightarrow>
   callback w cfg tag body =
     ([Log INFO ''Callback triggered.'' [], Log DEBUG ''Received message: %s'' [ArgVal (PDict d)],
       Log DEBUG ''Processing message from %s'' [ArgVal (dict_get d ''From'')],
       PsycopgConnect (POSTGRES_HOST cfg) (POSTGRES_DB cfg) (POSTGRES_USER cfg) (POSTGRES_PASSWORD cfg)]
      @ (if is_psycopg_Error e
         then [Log ERROR ''Error connecting to Postgres: %s'' [ArgExn e], Log ERROR ''No database connection available.'' []]
         else if is_JSONDecodeError_or_KeyError e then [Log ERROR ''Failed to process message: %s'' [ArgExn e]] else []),
      if is_psycopg_Error e \<or> is_JSONDecodeError_or_KeyError e then Inr () else Inl e)"
  by (simp add: callback_def connect_to_postgres_def comp_defs)

lemma callback_connected:
  "json_loads w body = Inr (PDict d) \<Longrightarrow> psycopg_connect w = None \<Longrightarrow>
   callback w cfg tag body =
     try_except
       (py_seq ([Log INFO ''Callback triggered.'' [], Log DEBUG ''Received message: %s'' [ArgVal (PDict d)],
          Log DEBUG ''Processing message from %s'' [ArgVal (dict_get d ''From'')],
          PsycopgConnect (POSTGRES_HOST cfg) (POSTGRES_DB cfg) (POSTGRES_USER cfg) (POSTGRES_PASSWORD cfg),
          Log INFO ''Connected to Postgres database.'' []], Inr ())
          (callback_persist w cfg tag (callback_columns d) (callback_values d)))
       is_JSONDecodeError_or_KeyError
       (\<lambda>e. logger_log ERROR ''Failed to process message: %s'' [ArgExn e])"
  by (simp add: callback_def connect_to_postgres_def comp_defs split: prod.splits sum.splits)



lemma callback_trace_cases:
  obtains (undecoded) e where "json_loads w body = Inl e"
  | (not_dict) m where "json_loads w body = Inr m" "\<forall>d. m \<noteq> PDict d"
  | (not_connected) d e where "json_loads w body = Inr (PDict d)" "psycopg_connect w = Some e"
  | (connected) d where "json_loads w body = Inr (PDict d)" "psycopg_connect w = None"
proof (cases "json_loads w body")
  case (Inl e)
  then show ?thesis by (rule undecoded)
next
  case (Inr m)
  show ?thesis
  proof (cases "\<exists>d. m = PDict d")
    case True
    then obtain d where "m = PDict d" by blast
    with Inr show ?thesis by (cases "psycopg_connect w") (auto intro: not_connected connected)
  next
    case False
    with Inr show ?thesis by (auto intro: not_dict)
  qed
qed

lemma callback_connected_fst:
  assumes "json_loads w body = Inr (PDict d)" "psycopg_connect w = None"
  shows "fst (callback w cfg tag body) =
           callback_prelude cfg d
           @ fst (callback_persist w cfg tag (callback_columns d) (callback_values d))
           @ (case snd (callback_persist w cfg tag (callback_columns d) (callback_values d)) of
                Inl e \<Rightarrow> if is_JSONDecodeError_or_KeyError e
                          then [Log ERROR ''Failed to process message: %s'' [ArgExn e]] else []
              | Inr _ \<Rightarrow> [])"
  by (simp add: callback_connected [OF assms] callback_prelude_def comp_defs
        split: prod.splits sum.splits)

lemma callback_connected_snd:
  assumes "json_loads w body = Inr (PDict d)" "psycopg_connect w = None"
  shows "snd (callback w cfg tag body) =
           (case snd (callback_persist w cfg tag (callback_columns d) (callback_values d)) of
              Inl e \<Rightarrow> if is_JSONDecodeError_or_KeyError e then Inr () else Inl e
            | Inr x \<Rightarrow> Inr x)"
  by (simp add: callback_connected [OF assms] comp_defs split: prod.splits sum.splits)

lemma persist_acks:
  "filter is_ack (fst (callback_persist w cfg tag cols vals)) =
     (if conn_cursor w = None \<and> length cols = length vals
         \<and> cursor_execute w (callback_query cfg cols vals) vals = None \<and> conn_commit w = None
      then [BasicAck tag] else [])"
  by (cases "conn_cursor w"; cases "cursor_execute w (callback_query cfg cols vals) vals";
      cases "conn_commit w"; cases "basic_ack w"; simp add: callback_persist_cases)

lemma persist_requeue: "filter is_requeue (fst (callback_persist w cfg tag cols vals)) = []"
  by (cases "conn_cursor w"; cases "cursor_execute w (callback_query cfg cols vals) vals";
      cases "conn_commit w"; cases "basic_ack w"; simp add: callback_persist_cases)

lemma persist_executes:
  "filter is_execute (fst (callback_persist w cfg tag cols vals)) =
     (if conn_cursor w = None \<and> length cols = length vals
      then [CursorExecute (callback_query cfg cols vals) vals] else [])"
  by (cases "conn_cursor w"; cases "cursor_execute w (callback_query cfg cols vals) vals";
      cases "conn_commit w"; cases "basic_ack w"; simp add: callback_persist_cases)

lemma persist_commit_first:
  "filter is_ack (fst (callback_persist w cfg tag cols vals)) \<noteq> [] \<Longrightarrow>
   ConnCommit \<in> set (before_first_ack (fst (callback_persist w cfg tag cols vals)))"
  by (cases "conn_cursor w"; cases "cursor_execute w (callback_query cfg cols vals) vals";
      cases "conn_commit w"; cases "basic_ack w";
      simp add: callback_persist_cases before_first_ack_def split: if_splits)

lemma persist_closes:
  "filter (\<lambda>ev. ev = ConnClose) (fst (callback_persist w cfg tag cols vals)) = [ConnClose]
   \<and> last (fst (callback_persist w cfg tag cols vals)) = ConnClose"
  by (cases "conn_cursor w"; cases "cursor_execute w (callback_query cfg cols vals) vals";
      cases "conn_commit w"; cases "basic_ack w"; simp add: callback_persist_cases)

lemma persist_result:
  "snd (callback_persist w cfg tag cols vals) =
     (case conn_cursor w of
        Some e \<Rightarrow> if is_DatabaseError e then Inr () else Inl e
      | None \<Rightarrow>
          if length cols \<noteq> length vals then Inl ValueError
          else (case cursor_execute w (callback_query cfg cols vals) vals of
                  Some e \<Rightarrow> if is_DatabaseError e then Inr () else Inl e
                | None \<Rightarrow>
                    (case conn_commit w of
                       Some e \<Rightarrow> if is_DatabaseError e then Inr () else Inl e
                     | None \<Rightarrow>
                         (case basic_ack w of
                            Some e \<Rightarrow> if is_DatabaseError e then Inr () else Inl e
                          | None \<Rightarrow> Inr ()))))"
  by (cases "conn_cursor w"; cases "cursor_execute w (callback_query cfg cols vals) vals";
      cases "conn_commit w"; cases "basic_ack w"; simp add: callback_persist_cases)

lemma prelude_no_ack: "filter is_ack (callback_prelude cfg d) = []"
  by (simp add: callback_prelude_def)

lemma before_first_ack_append:
  "filter is_ack xs = [] \<Longrightarrow> before_first_ack (xs @ ys) = xs @ before_first_ack ys"
  unfolding before_first_ack_def
  by (rule takeWhile_append2) (auto simp: filter_empty_conv)

lemma before_first_ack_prefix:
  "set (before_first_ack ys) \<subseteq> set (before_first_ack (ys @ zs))"
  unfolding before_first_ack_def
  by (induction ys) auto

lemma callback_acks:
  "filter is_ack (fst (callback w cfg tag body)) =
     (case json_loads w body of
        Inr (PDict d) \<Rightarrow>
          (if psycopg_connect w = None \<and> conn_cursor w = None
              \<and> cursor_execute w (callback_query cfg (callback_columns d) (callback_values d))
                   (callback_values d) = None
              \<and> conn_commit w = None
           then [BasicAck tag] else [])
      | _ \<Rightarrow> [])"
proof (cases rule: callback_trace_cases [of w body])
  case (undecoded e)
  then show ?thesis by (simp add: callback_not_decoded)
next
  case (not_dict m)
  then show ?thesis by (cases m) (simp_all add: callback_not_dict)
next
  case (not_connected d e)
  then show ?thesis by (simp add: callback_not_connected)
next
  case (connected d)
  then show ?thesis
    by (simp add: callback_connected_fst prelude_no_ack persist_acks callback_arity
          split: sum.splits)
qed

lemma callback_commit_first:
  assumes "filter is_ack (fst (callback w cfg tag body)) \<noteq> []"
  shows "ConnCommit \<in> set (before_first_ack (fst (callback w cfg tag body)))"
proof (cases rule: callback_trace_cases [of w body])
  case (undecoded e)
  with assms show ?thesis by (simp add: callback_acks)
next
  case (not_dict m)
  with assms show ?thesis by (cases m) (simp_all add: callback_acks)
next
  case (not_connected d e)
  with assms show ?thesis by (simp add: callback_acks)
next
  case (connected d)
  let ?P = "callback_persist w cfg tag (callback_columns d) (callback_values d)"
  from assms connected have "filter is_ack (fst ?P) \<noteq> []"
    by (simp add: callback_acks persist_acks callback_arity split: if_splits)
  then have "ConnCommit \<in> set (before_first_ack (fst ?P))"
    by (rule persist_commit_first)
  then show ?thesis
    using before_first_ack_prefix
    by (auto simp add: callback_connected_fst [OF connected] before_first_ack_append prelude_no_ack)
qed

lemma callback_requeue: "filter is_requeue (fst (callback w cfg tag body)) = []"
proof (cases rule: callback_trace_cases [of w body])
  case (undecoded e)
  then show ?thesis by (simp add: callback_not_decoded)
next
  case (not_dict m)
  then show ?thesis by (simp add: callback_not_dict)
next
  case (not_connected d e)
  then show ?thesis by (simp add: callback_not_connected)
next
  case (connected d)
  then show ?thesis
    by (simp add: callback_connected_fst callback_prelude_def persist_requeue split: sum.splits)
qed

text \<open>
  C1. The callback acknowledges only after the commit has returned: an acknowledgment in
  the trace carries the delivery tag, the insert and the commit returned without an
  exception, and the commit call lies before the first acknowledgment. When the body
  decodes to an object and the connection, the cursor, the insert and the commit
  succeed, exactly one acknowledgment is issued. When the insert raises, no
  acknowledgment is issued, and a \<open>DatabaseError\<close> is logged and kept inside the
  callback. No run of the callback issues a rejection or a publish.
\<close>

theorem callback_ack_only_after_commit:
  "(BasicAck n \<in> set (fst (callback w cfg tag body)) \<longrightarrow>
      n = tag \<and> conn_commit w = None
      \<and> ConnCommit \<in> set (before_first_ack (fst (callback w cfg tag body)))
      \<and> (\<exists>d. json_loads w body = Inr (PDict d)
             \<and> cursor_execute w (callback_query cfg (callback_columns d) (callback_values d))
                  (callback_values d) = None))
   \<and> (json_loads w body = Inr (PDict d) \<and> psycopg_connect w = None \<and> conn_cursor w = None
       \<and> cursor_execute w (callback_query cfg (callback_columns d) (callback_values d))
            (callback_values d) = None
       \<and> conn_commit w = None \<longrightarrow>
       filter is_ack (fst (callback w cfg tag body)) = [BasicAck tag])
   \<and> (json_loads w body = Inr (PDict d)
       \<and> cursor_execute w (callback_query cfg (callback_columns d) (callback_values d))
            (callback_values d) = Some e \<longrightarrow>
       filter is_ack (fst (callback w cfg tag body)) = []
       \<and> (is_DatabaseError e \<and> psycopg_connect w = None \<and> conn_cursor w = None \<longrightarrow>
            snd (callback w cfg tag body) = Inr ()))
   \<and> filter is_requeue (fst (callback w cfg tag body)) = []"
proof (intro conjI impI)
  assume ack: "BasicAck n \<in> set (fst (callback w cfg tag body))"
  then have mem: "BasicAck n \<in> set (filter is_ack (fst (callback w cfg tag body)))" by simp
  then have in_acks: "BasicAck n \<in> set (case json_loads w body of
        Inr (PDict d) \<Rightarrow>
          (if psycopg_connect w = None \<and> conn_cursor w = None
              \<and> cursor_execute w (callback_query cfg (callback_columns d) (callback_values d))
                   (callback_values d) = None
              \<and> conn_commit w = None
           then [BasicAck tag] else [])
      | _ \<Rightarrow> [])"
    by (simp only: callback_acks)
  then obtain d' where d': "json_loads w body = Inr (PDict d')"
    by (cases "json_loads w body") (auto split: pyval.splits)
  from in_acks d' have ok: "n = tag \<and> conn_commit w = None
      \<and> cursor_execute w (callback_query cfg (callback_columns d') (callback_values d'))
           (callback_values d') = None"
    by (simp split: if_splits)
  from ok show "n = tag" by simp
  from ok show "conn_commit w = None" by simp
  from ok d' show "\<exists>d. json_loads w body = Inr (PDict d)
             \<and> cursor_execute w (callback_query cfg (callback_columns d) (callback_values d))
                  (callback_values d) = None"
    by blast
  from mem have "filter is_ack (fst (callback w cfg tag body)) \<noteq> []"
    by (cases "filter is_ack (fst (callback w cfg tag body))") simp_all
  then show "ConnCommit \<in> set (before_first_ack (fst (callback w cfg tag body)))"
    by (rule callback_commit_first)
next
  assume "json_loads w body = Inr (PDict d) \<and> psycopg_connect w = None \<and> conn_cursor w = None
       \<and> cursor_execute w (callback_query cfg (callback_columns d) (callback_values d))
            (callback_values d) = None
       \<and> conn_commit w = None"
  then show "filter is_ack (fst (callback w cfg tag body)) = [BasicAck tag]"
    by (simp add: callback_acks)
next
  assume "json_loads w body = Inr (PDict d)
       \<and> cursor_execute w (callback_query cfg (callback_columns d) (callback_values d))
            (callback_values d) = Some e"
  then show "filter is_ack (fst (callback w cfg tag body)) = []"
    by (simp add: callback_acks)
next
  assume "json_loads w body = Inr (PDict d)
       \<and> cursor_execute w (callback_query cfg (callback_columns d) (callback_values d))
            (callback_values d) = Some e"
    and "is_DatabaseError e \<and> psycopg_connect w = None \<and> conn_cursor w = None"
  then show "snd (callback w cfg tag body) = Inr ()"
    by (simp add: callback_connected_snd persist_result callback_arity)
next
  show "filter is_requeue (fst (callback w cfg tag body)) = []"
    by (rule callback_requeue)
qed
theorem callback_ack_only_after_commit_witness:
  "json_loads quiet_world sms_body = Inr (PDict sms_message)
   \<and> filter is_ack (fst (callback quiet_world default_config 7 sms_body)) = [BasicAck 7]
   \<and> BasicAck 7 \<in> set (fst (callback quiet_world default_config 7 sms_body))
   \<and> conn_commit quiet_world = None
   \<and> ConnCommit \<in> set (before_first_ack (fst (callback quiet_world default_config 7 sms_body)))
   \<and> cursor_execute rejecting_world
        (callback_query default_config (callback_columns sms_message) (callback_values sms_message))
        (callback_values sms_message) = Some PsycopgIntegrityError
   \<and> is_DatabaseError PsycopgIntegrityError
   \<and> filter is_ack (fst (callback rejecting_world default_config 7 sms_body)) = []
   \<and> snd (callback rejecting_world default_config 7 sms_body) = Inr ()"
proof -
  have q: "json_loads quiet_world sms_body = Inr (PDict sms_message)"
    "psycopg_connect quiet_world = None" "conn_cursor quiet_world = None"
    "cursor_execute quiet_world
        (callback_query default_config (callback_columns sms_message) (callback_values sms_message))
        (callback_values sms_message) = None"
    "conn_commit quiet_world = None"
    by (simp_all add: quiet_world_def example_loads_def)
  have r: "json_loads rejecting_world sms_body = Inr (PDict sms_message)"
    "psycopg_connect rejecting_world = None" "conn_cursor rejecting_world = None"
    "cursor_execute rejecting_world
        (callback_query default_config (callback_columns sms_message) (callback_values sms_message))
        (callback_values sms_message) = Some PsycopgIntegrityError"
    by (simp_all add: rejecting_world_def quiet_world_def example_loads_def)
  note good = callback_ack_only_after_commit
    [where n = 7 and w = quiet_world and cfg = default_config and tag = 7 and body = sms_body
       and d = sms_message]
  note bad = callback_ack_only_after_commit
    [where w = rejecting_world and cfg = default_config and tag = 7 and body = sms_body
       and d = sms_message and e = PsycopgIntegrityError]
  from good q have acks: "filter is_ack (fst (callback quiet_world default_config 7 sms_body)) = [BasicAck 7]"
    by blast
  have "BasicAck 7 \<in> set (filter is_ack (fst (callback quiet_world default_config 7 sms_body)))"
    by (simp only: acks list.set_intros)
  then have mem: "BasicAck 7 \<in> set (fst (callback quiet_world default_config 7 sms_body))"
    by simp
  with good have first: "ConnCommit \<in> set (before_first_ack (fst (callback quiet_world default_config 7 sms_body)))"
    by blast
  from bad r have none: "filter is_ack (fst (callback rejecting_world default_config 7 sms_body)) = []"
    by blast
  have "is_DatabaseError PsycopgIntegrityError" by simp
  with bad r have ret: "snd (callback rejecting_world default_config 7 sms_body) = Inr ()"
    by blast
  from q r acks mem first none ret show ?thesis by simp
qed

lemma callback_as_outer:
  assumes "json_loads w body = Inr (PDict d)" "psycopg_connect w = None"
  shows "callback w cfg tag body =
           callback_outer cfg d (callback_persist w cfg tag (callback_columns d) (callback_values d))"
  by (simp add: callback_connected [OF assms] callback_outer_def callback_prelude_def comp_defs)

text \<open>
  C2, as stated, fails: on the body \<open>{\<close>, which is not JSON, the callback logs the
  failure and returns; the number of acknowledgments is zero, not one.
\<close>

theorem decode_failure_counterexample:
  "json_loads quiet_world malformed_body = Inl JSONDecodeError
   \<and> callback quiet_world default_config 7 malformed_body =
       ([Log INFO ''Callback triggered.'' [],
         Log ERROR ''Failed to process message: %s'' [ArgExn JSONDecodeError]], Inr ())
   \<and> length (filter is_ack (fst (callback quiet_world default_config 7 malformed_body))) \<noteq> 1"
proof -
  have "json_loads quiet_world malformed_body = Inl JSONDecodeError"
    by (simp add: quiet_world_def example_loads_def malformed_body_def sms_body_def array_body_def
          non_utf8_body_def)
  then show ?thesis by (simp add: callback_not_decoded)
qed

text \<open>
  C2, amended. When \<open>json.loads\<close> raises on the body, the callback attempts no
  persistence and acknowledges nothing: its trace holds no call on the database, no
  acknowledgment and no rejection or publish, so the delivery stays unacknowledged. When
  the exception is a \<open>JSONDecodeError\<close> (or a \<open>KeyError\<close>) the callback logs the
  failure and returns; any other exception of the decoding, such as the
  \<open>UnicodeDecodeError\<close> for bytes that are not UTF-8, is not logged by the callback and
  leaves it. The outcome is the same for every world, configuration and delivery tag in
  which the same bytes fail in the same way.
\<close>

theorem decode_failure_logged_not_acked:
  "json_loads w body = Inl e \<Longrightarrow>
     callback w cfg tag body =
       (if is_JSONDecodeError_or_KeyError e
        then ([Log INFO ''Callback triggered.'' [],
               Log ERROR ''Failed to process message: %s'' [ArgExn e]], Inr ())
        else ([Log INFO ''Callback triggered.'' []], Inl e))
     \<and> (e = JSONDecodeError \<longrightarrow>
          callback w cfg tag body =
            ([Log INFO ''Callback triggered.'' [],
              Log ERROR ''Failed to process message: %s'' [ArgExn JSONDecodeError]], Inr ()))
     \<and> (e = UnicodeDecodeError \<longrightarrow>
          callback w cfg tag body = ([Log INFO ''Callback triggered.'' []], Inl UnicodeDecodeError))
     \<and> filter is_ack (fst (callback w cfg tag body)) = []
     \<and> filter is_requeue (fst (callback w cfg tag body)) = []
     \<and> filter is_database_call (fst (callback w cfg tag body)) = []
     \<and> (json_loads w' body = Inl e \<longrightarrow>
          callback w' cfg' tag' body = callback w cfg tag body)"
  by (simp add: callback_not_decoded)

theorem decode_failure_logged_not_acked_witness:
  "json_loads quiet_world malformed_body = Inl JSONDecodeError
   \<and> json_loads rejecting_world malformed_body = Inl JSONDecodeError
   \<and> callback quiet_world default_config 7 malformed_body =
       ([Log INFO ''Callback triggered.'' [],
         Log ERROR ''Failed to process message: %s'' [ArgExn JSONDecodeError]], Inr ())
   \<and> filter is_ack (fst (callback quiet_world default_config 7 malformed_body)) = []
   \<and> filter is_database_call (fst (callback quiet_world default_config 7 malformed_body)) = []
   \<and> callback rejecting_world default_config 8 malformed_body
       = callback quiet_world default_config 7 malformed_body
   \<and> json_loads quiet_world non_utf8_body = Inl UnicodeDecodeError
   \<and> callback quiet_world default_config 7 non_utf8_body =
       ([Log INFO ''Callback triggered.'' []], Inl UnicodeDecodeError)
   \<and> filter is_ack (fst (callback quiet_world default_config 7 non_utf8_body)) = []
   \<and> filter is_database_call (fst (callback quiet_world default_config 7 non_utf8_body)) = []"
proof -
  have q: "json_loads quiet_world malformed_body = Inl JSONDecodeError"
    by (simp add: quiet_world_def example_loads_def malformed_body_def sms_body_def array_body_def
          non_utf8_body_def)
  have r: "json_loads rejecting_world malformed_body = Inl JSONDecodeError"
    by (simp add: rejecting_world_def quiet_world_def example_loads_def malformed_body_def
          sms_body_def array_body_def non_utf8_body_def)
  have u: "json_loads quiet_world non_utf8_body = Inl UnicodeDecodeError"
    by (simp add: quiet_world_def example_loads_def sms_body_def array_body_def
          non_utf8_body_def)
  note json = decode_failure_logged_not_acked [OF q, where w' = rejecting_world
      and cfg = default_config and tag = 7 and cfg' = default_config and tag' = 8]
  note utf8 = decode_failure_logged_not_acked [OF u, where w' = quiet_world
      and cfg = default_config and tag = 7 and cfg' = default_config and tag' = 7]
  from json r have 1:
    "callback quiet_world default_config 7 malformed_body =
       ([Log INFO ''Callback triggered.'' [],
         Log ERROR ''Failed to process message: %s'' [ArgExn JSONDecodeError]], Inr ())"
    "filter is_ack (fst (callback quiet_world default_config 7 malformed_body)) = []"
    "filter is_database_call (fst (callback quiet_world default_config 7 malformed_body)) = []"
    "callback rejecting_world default_config 8 malformed_body
       = callback quiet_world default_config 7 malformed_body"
    by blast+
  from utf8 have 2:
    "callback quiet_world default_config 7 non_utf8_body =
       ([Log INFO ''Callback triggered.'' []], Inl UnicodeDecodeError)"
    "filter is_ack (fst (callback quiet_world default_config 7 non_utf8_body)) = []"
    "filter is_database_call (fst (callback quiet_world default_config 7 non_utf8_body)) = []"
    by blast+
  from q r u 1 2 show ?thesis by blast
qed

text \<open>
  C3. When the column list and the value list handed to the insert block of the callback
  differ in length, no statement is executed and no acknowledgment is issued; once the
  cursor is open the arity check raises \<open>ValueError\<close> before the query runs, the
  cursor and the connection are closed, and neither the inner handler
  (\<open>DatabaseError\<close>) nor the outer one (\<open>JSONDecodeError\<close>, \<open>KeyError\<close>) catches it.
\<close>

theorem arity_mismatch_no_insert:
  "length columns \<noteq> length vals \<Longrightarrow>
     filter is_execute (fst (callback_persist w cfg tag columns vals)) = []
     \<and> filter is_ack (fst (callback_persist w cfg tag columns vals)) = []
     \<and> (conn_cursor w = None \<longrightarrow>
          callback_persist w cfg tag columns vals
            = ([ConnCursor, CursorClose, ConnClose], Inl ValueError)
          \<and> snd (callback_outer cfg d (callback_persist w cfg tag columns vals)) = Inl ValueError
          \<and> filter is_ack (fst (callback_outer cfg d (callback_persist w cfg tag columns vals))) = [])"
  by (simp add: persist_executes persist_acks)
     (simp add: callback_persist_cases callback_outer_def callback_prelude_def comp_defs)

theorem arity_mismatch_no_insert_witness:
  "length [''a''] \<noteq> length ([] :: pyval list) \<and> conn_cursor quiet_world = None
   \<and> callback_persist quiet_world default_config 7 [''a''] []
        = ([ConnCursor, CursorClose, ConnClose], Inl ValueError)
   \<and> filter is_execute (fst (callback_persist quiet_world default_config 7 [''a''] [])) = []
   \<and> filter is_ack (fst (callback_persist quiet_world default_config 7 [''a''] [])) = []"
proof -
  have ne: "length [''a''] \<noteq> length ([] :: pyval list)" by simp
  have c: "conn_cursor quiet_world = None" by (simp add: quiet_world_def)
  from arity_mismatch_no_insert [OF ne, of quiet_world default_config 7] ne c
  show ?thesis by blast
qed

section \<open>The delivery loop\<close>

lemma consume_attempt_quiet:
  "consume_attempt cfg (quiet_attempt ds after) =
     py_seq (consume_setup cfg, Inr ())
       (py_seq (deliver cfg ds)
          (case after of
             Blocks \<Rightarrow> py_return StillConsuming
           | Returns \<Rightarrow> py_return Stopped
           | Raises e \<Rightarrow> py_raise e))"
  by (simp add: consume_attempt_def start_consuming_def quiet_attempt_def consume_setup_def
        comp_defs split: prod.splits sum.splits)

lemma deliver_raises:
  "snd (callback w cfg tag body) = Inl e \<Longrightarrow>
   deliver cfg ((w, tag, body) # ds) = (fst (callback w cfg tag body), Inl e)"
  by (cases "callback w cfg tag body") (simp add: comp_defs)

lemma consume_messages_step:
  "consume_messages cfg (a # as) =
     (case snd (consume_attempt cfg a) of
        Inr StillConsuming \<Rightarrow>
          (Log DEBUG ''Attempting to connect to RabbitMQ...'' [] # fst (consume_attempt cfg a),
           Consuming)
      | Inr Stopped \<Rightarrow>
          (Log DEBUG ''Attempting to connect to RabbitMQ...'' [] # fst (consume_attempt cfg a)
             @ fst (consume_messages cfg as),
           snd (consume_messages cfg as))
      | Inl e \<Rightarrow>
          (if is_AMQPConnectionError e
           then (Log DEBUG ''Attempting to connect to RabbitMQ...'' []
                   # fst (consume_attempt cfg a)
                   @ [Log ERROR ''Failed to connect to RabbitMQ: %s'' [ArgExn e],
                      Log DEBUG ''Retrying in 5 seconds...'' [], Sleep 5]
                   @ fst (consume_messages cfg as),
                 snd (consume_messages cfg as))
           else (Log DEBUG ''Attempting to connect to RabbitMQ...'' []
                   # fst (consume_attempt cfg a),
                 Died e)))"
  by (cases "consume_attempt cfg a"; cases "consume_messages cfg as")
     (simp add: comp_defs split: sum.splits consuming.splits)


declare consume_messages.simps [simp del]

lemma consume_attempt_callback_raises:
  assumes "snd (callback w cfg tag body) = Inl e"
  shows "consume_attempt cfg (quiet_attempt ((w, tag, body) # ds) after) =
           (consume_setup cfg @ fst (callback w cfg tag body), Inl e)"
  by (simp only: consume_attempt_quiet deliver_raises [OF assms])
     (simp add: comp_defs)

lemma consume_messages_callback_raises:
  assumes "snd (callback w cfg tag body) = Inl e"
  shows "snd (consume_messages cfg (quiet_attempt ((w, tag, body) # ds) after # rest)) =
           (if is_AMQPConnectionError e then snd (consume_messages cfg rest) else Died e)"
  by (simp only: consume_messages_step consume_attempt_callback_raises [OF assms])
     simp

lemma callback_escapes:
  "snd (callback w cfg tag body) = Inl e \<Longrightarrow> \<not> is_JSONDecodeError_or_KeyError e"
proof (cases rule: callback_trace_cases [of w body])
  case (undecoded e')
  assume "snd (callback w cfg tag body) = Inl e"
  with undecoded show ?thesis by (simp add: callback_not_decoded split: if_splits)
next
  case (not_dict m)
  assume "snd (callback w cfg tag body) = Inl e"
  with not_dict show ?thesis by (auto simp add: callback_not_dict)
next
  case (not_connected d e')
  assume "snd (callback w cfg tag body) = Inl e"
  with not_connected show ?thesis by (simp add: callback_not_connected split: if_splits)
next
  case (connected d)
  assume "snd (callback w cfg tag body) = Inl e"
  with connected show ?thesis
    by (simp add: callback_connected_snd split: sum.splits if_splits)
qed

lemma DatabaseError_is_psycopg_Error: "is_DatabaseError e \<Longrightarrow> is_psycopg_Error e"
  by (cases e) simp_all

lemma persist_no_database_error:
  "snd (callback_persist w cfg tag cols vals) = Inl e \<Longrightarrow> \<not> is_DatabaseError e"
  by (cases "conn_cursor w"; cases "cursor_execute w (callback_query cfg cols vals) vals";
      cases "conn_commit w"; cases "basic_ack w";
      auto simp add: persist_result split: if_splits)

lemma callback_no_database_error:
  assumes "json_loads w body = Inr (PDict d)" "snd (callback w cfg tag body) = Inl e"
  shows "\<not> is_DatabaseError e"
proof (cases "psycopg_connect w")
  case None
  with assms show ?thesis
    by (auto simp add: callback_connected_snd split: sum.splits if_splits
          dest: persist_no_database_error)
next
  case (Some e')
  with assms show ?thesis
    by (auto simp add: callback_not_connected split: if_splits
          dest: DatabaseError_is_psycopg_Error)
qed

text \<open>
  C4, as stated, fails: the body \<open>[]\<close> decodes to a list, \<open>message.get\<close> raises
  \<open>AttributeError\<close>, no handler of the callback catches it, it is not a
  connection-level error, and the loop of \<open>consume_messages\<close> is left with it.
\<close>

theorem uncaught_exception_counterexample:
  "json_loads quiet_world array_body = Inr (PList [])
   \<and> callback quiet_world default_config 7 array_body =
       ([Log INFO ''Callback triggered.'' [],
         Log DEBUG ''Received message: %s'' [ArgVal (PList [])]], Inl AttributeError)
   \<and> \<not> is_AMQPConnectionError AttributeError
   \<and> snd (consume_messages default_config
             [quiet_attempt [(quiet_world, 7, array_body)] Blocks]) = Died AttributeError"
proof -
  have l: "json_loads quiet_world array_body = Inr (PList [])"
    by (simp add: quiet_world_def example_loads_def array_body_def sms_body_def)
  then have c: "callback quiet_world default_config 7 array_body =
       ([Log INFO ''Callback triggered.'' [],
         Log DEBUG ''Received message: %s'' [ArgVal (PList [])]], Inl AttributeError)"
    by (simp add: callback_not_dict)
  then have "snd (callback quiet_world default_config 7 array_body) = Inl AttributeError"
    by simp
  then have "snd (consume_messages default_config
             [quiet_attempt [(quiet_world, 7, array_body)] Blocks]) = Died AttributeError"
    by (simp add: consume_messages_callback_raises)
  with l c show ?thesis by simp
qed

lemma persist_result_failure:
  "snd (callback_persist w cfg tag (callback_columns d) (callback_values d)) =
     (case insert_failure w cfg d of
        None \<Rightarrow> Inr ()
      | Some e \<Rightarrow> if is_DatabaseError e then Inr () else Inl e)"
  by (cases "conn_cursor w";
      cases "cursor_execute w (callback_query cfg (callback_columns d) (callback_values d))
               (callback_values d)";
      cases "conn_commit w"; cases "basic_ack w";
      simp add: persist_result callback_arity insert_failure_def)

lemma persist_logs_database_error:
  "insert_failure w cfg d = Some e \<Longrightarrow> is_DatabaseError e \<Longrightarrow>
   Log ERROR ''Database error during insertion: %s'' [ArgExn e]
     \<in> set (fst (callback_persist w cfg tag (callback_columns d) (callback_values d)))"
  by (cases "conn_cursor w";
      cases "cursor_execute w (callback_query cfg (callback_columns d) (callback_values d))
               (callback_values d)";
      cases "conn_commit w"; cases "basic_ack w";
      simp add: callback_persist_cases callback_arity insert_failure_def)

lemma callback_insert_result:
  assumes "json_loads w body = Inr (PDict d)" "psycopg_connect w = None"
  shows "snd (callback w cfg tag body) =
           (case insert_failure w cfg d of
              None \<Rightarrow> Inr ()
            | Some e \<Rightarrow>
                if is_DatabaseError e \<or> is_JSONDecodeError_or_KeyError e then Inr () else Inl e)"
  by (cases "insert_failure w cfg d")
     (simp_all add: callback_connected_snd [OF assms] persist_result_failure)

lemma callback_logs_database_error:
  assumes "json_loads w body = Inr (PDict d)" "psycopg_connect w = None"
    and "insert_failure w cfg d = Some e" "is_DatabaseError e"
  shows "Log ERROR ''Database error during insertion: %s'' [ArgExn e]
           \<in> set (fst (callback w cfg tag body))"
  using persist_logs_database_error [OF assms(3) assms(4), of tag]
  by (simp add: callback_connected_fst [OF assms(1) assms(2)])

lemma callback_logs_outer:
  assumes "json_loads w body = Inr (PDict d)" "psycopg_connect w = None"
    and "insert_failure w cfg d = Some e" "\<not> is_DatabaseError e"
    "is_JSONDecodeError_or_KeyError e"
  shows "Log ERROR ''Failed to process message: %s'' [ArgExn e]
           \<in> set (fst (callback w cfg tag body))"
  using assms(3-5)
  by (simp add: callback_connected_fst [OF assms(1) assms(2)] persist_result_failure)

text \<open>
  C4, amended. The callback catches, logs and returns from exactly these exceptions: a
  \<open>JSONDecodeError\<close> or a \<open>KeyError\<close> raised by \<open>json.loads\<close>, by
  \<open>psycopg.connect\<close> or inside the insert block (outer handler); a \<open>psycopg.Error\<close>
  raised by \<open>psycopg.connect\<close> (logged by \<open>connect_to_postgres\<close>, after which the
  callback logs that no connection is available); and a \<open>DatabaseError\<close> raised by
  opening the cursor, by the insert, by the commit or by the acknowledgment (inner
  handler). Every other exception raised at these places leaves the callback unchanged:
  any other exception of \<open>json.loads\<close>, \<open>AttributeError\<close> for a decoded body that is
  not an object, an exception of \<open>psycopg.connect\<close> that is not a \<open>psycopg.Error\<close>,
  and an exception of the insert block that is not a \<open>DatabaseError\<close>. An exception
  that leaves the callback and is not an \<open>AMQPConnectionError\<close> ends the loop of
  \<open>consume_messages\<close>.
\<close>

theorem callback_caught_and_escaping:
  "(snd (callback w cfg tag body) = Inl e \<longrightarrow> \<not> is_JSONDecodeError_or_KeyError e)
   \<and> (json_loads w body = Inl JSONDecodeError \<longrightarrow> snd (callback w cfg tag body) = Inr ())
   \<and> (json_loads w body = Inr (PDict d) \<and> snd (callback w cfg tag body) = Inl e \<longrightarrow>
        \<not> is_DatabaseError e)
   \<and> (json_loads w body = Inr m \<and> (\<forall>d'. m \<noteq> PDict d') \<longrightarrow>
        snd (callback w cfg tag body) = Inl AttributeError)
   \<and> (json_loads w body = Inr (PDict d) \<and> psycopg_connect w = None \<and> conn_cursor w = None
        \<and> cursor_execute w (callback_query cfg (callback_columns d) (callback_values d))
             (callback_values d) = Some e
        \<and> \<not> is_DatabaseError e \<and> \<not> is_JSONDecodeError_or_KeyError e \<longrightarrow>
        snd (callback w cfg tag body) = Inl e)
   \<and> (snd (callback w cfg tag body) = Inl e \<and> \<not> is_AMQPConnectionError e \<longrightarrow>
        snd (consume_messages cfg (quiet_attempt ((w, tag, body) # ds) after # rest)) = Died e)
   \<and> (json_loads w body = Inl e \<longrightarrow>
        snd (callback w cfg tag body)
          = (if is_JSONDecodeError_or_KeyError e then Inr () else Inl e)
        \<and> (is_JSONDecodeError_or_KeyError e \<longrightarrow>
             Log ERROR ''Failed to process message: %s'' [ArgExn e]
               \<in> set (fst (callback w cfg tag body))))
   \<and> (json_loads w body = Inr (PDict d) \<and> psycopg_connect w = Some e \<longrightarrow>
        snd (callback w cfg tag body)
          = (if is_psycopg_Error e \<or> is_JSONDecodeError_or_KeyError e then Inr () else Inl e)
        \<and> (is_psycopg_Error e \<longrightarrow>
             Log ERROR ''Error connecting to Postgres: %s'' [ArgExn e]
               \<in> set (fst (callback w cfg tag body))
             \<and> Log ERROR ''No database connection available.'' []
               \<in> set (fst (callback w cfg tag body)))
        \<and> (\<not> is_psycopg_Error e \<and> is_JSONDecodeError_or_KeyError e \<longrightarrow>
             Log ERROR ''Failed to process message: %s'' [ArgExn e]
               \<in> set (fst (callback w cfg tag body))))
   \<and> (json_loads w body = Inr (PDict d) \<and> psycopg_connect w = None \<longrightarrow>
        snd (callback w cfg tag body)
          = (case insert_failure w cfg d of
               None \<Rightarrow> Inr ()
             | Some e' \<Rightarrow>
                 if is_DatabaseError e' \<or> is_JSONDecodeError_or_KeyError e' then Inr ()
                 else Inl e'))
   \<and> (json_loads w body = Inr (PDict d) \<and> psycopg_connect w = None
        \<and> insert_failure w cfg d = Some e \<and> is_DatabaseError e \<longrightarrow>
        Log ERROR ''Database error during insertion: %s'' [ArgExn e]
          \<in> set (fst (callback w cfg tag body)))
   \<and> (json_loads w body = Inr (PDict d) \<and> psycopg_connect w = None
        \<and> insert_failure w cfg d = Some e \<and> \<not> is_DatabaseError e
        \<and> is_JSONDecodeError_or_KeyError e \<longrightarrow>
        Log ERROR ''Failed to process message: %s'' [ArgExn e]
          \<in> set (fst (callback w cfg tag body)))"
proof (intro conjI impI)
  assume "snd (callback w cfg tag body) = Inl e"
  then show "\<not> is_JSONDecodeError_or_KeyError e" by (rule callback_escapes)
next
  assume "json_loads w body = Inl JSONDecodeError"
  then show "snd (callback w cfg tag body) = Inr ()" by (simp add: callback_not_decoded)
next
  assume "json_loads w body = Inr (PDict d) \<and> snd (callback w cfg tag body) = Inl e"
  then show "\<not> is_DatabaseError e" using callback_no_database_error by blast
next
  assume "json_loads w body = Inr m \<and> (\<forall>d'. m \<noteq> PDict d')"
  then show "snd (callback w cfg tag body) = Inl AttributeError"
    by (simp add: callback_not_dict)
next
  assume "json_loads w body = Inr (PDict d) \<and> psycopg_connect w = None \<and> conn_cursor w = None
        \<and> cursor_execute w (callback_query cfg (callback_columns d) (callback_values d))
             (callback_values d) = Some e
        \<and> \<not> is_DatabaseError e \<and> \<not> is_JSONDecodeError_or_KeyError e"
  then show "snd (callback w cfg tag body) = Inl e"
    by (simp add: callback_connected_snd persist_result callback_arity)
next
  assume "snd (callback w cfg tag body) = Inl e \<and> \<not> is_AMQPConnectionError e"
  then show "snd (consume_messages cfg (quiet_attempt ((w, tag, body) # ds) after # rest)) = Died e"
    by (simp add: consume_messages_callback_raises)
next
  assume l: "json_loads w body = Inl e"
  then show "snd (callback w cfg tag body)
          = (if is_JSONDecodeError_or_KeyError e then Inr () else Inl e)"
    by (simp add: callback_not_decoded)
  assume "is_JSONDecodeError_or_KeyError e"
  with l show "Log ERROR ''Failed to process message: %s'' [ArgExn e]
               \<in> set (fst (callback w cfg tag body))"
    by (simp add: callback_not_decoded)
next
  assume c: "json_loads w body = Inr (PDict d) \<and> psycopg_connect w = Some e"
  then show "snd (callback w cfg tag body)
          = (if is_psycopg_Error e \<or> is_JSONDecodeError_or_KeyError e then Inr () else Inl e)"
    by (simp add: callback_not_connected)
  {
    assume "is_psycopg_Error e"
    with c show "Log ERROR ''Error connecting to Postgres: %s'' [ArgExn e]
               \<in> set (fst (callback w cfg tag body))"
      and "Log ERROR ''No database connection available.'' []
               \<in> set (fst (callback w cfg tag body))"
      by (simp_all add: callback_not_connected)
  }
  assume "\<not> is_psycopg_Error e \<and> is_JSONDecodeError_or_KeyError e"
  with c show "Log ERROR ''Failed to process message: %s'' [ArgExn e]
               \<in> set (fst (callback w cfg tag body))"
    by (simp add: callback_not_connected)
next
  assume "json_loads w body = Inr (PDict d) \<and> psycopg_connect w = None"
  then show "snd (callback w cfg tag body)
          = (case insert_failure w cfg d of
               None \<Rightarrow> Inr ()
             | Some e' \<Rightarrow>
                 if is_DatabaseError e' \<or> is_JSONDecodeError_or_KeyError e' then Inr ()
                 else Inl e')"
    by (simp add: callback_insert_result)
next
  assume "json_loads w body = Inr (PDict d) \<and> psycopg_connect w = None
        \<and> insert_failure w cfg d = Some e \<and> is_DatabaseError e"
  then show "Log ERROR ''Database error during insertion: %s'' [ArgExn e]
          \<in> set (fst (callback w cfg tag body))"
    by (simp add: callback_logs_database_error)
next
  assume "json_loads w body = Inr (PDict d) \<and> psycopg_connect w = None
        \<and> insert_failure w cfg d = Some e \<and> \<not> is_DatabaseError e
        \<and> is_JSONDecodeError_or_KeyError e"
  then show "Log ERROR ''Failed to process message: %s'' [ArgExn e]
          \<in> set (fst (callback w cfg tag body))"
    by (simp add: callback_logs_outer)
qed

theorem callback_caught_and_escaping_witness:
  "json_loads quiet_world malformed_body = Inl JSONDecodeError
   \<and> snd (callback quiet_world default_config 7 malformed_body) = Inr ()
   \<and> Log ERROR ''Failed to process message: %s'' [ArgExn JSONDecodeError]
        \<in> set (fst (callback quiet_world default_config 7 malformed_body))
   \<and> json_loads quiet_world non_utf8_body = Inl UnicodeDecodeError
   \<and> snd (callback quiet_world default_config 7 non_utf8_body) = Inl UnicodeDecodeError
   \<and> json_loads quiet_world array_body = Inr (PList [])
   \<and> snd (callback quiet_world default_config 7 array_body) = Inl AttributeError
   \<and> \<not> is_JSONDecodeError_or_KeyError AttributeError \<and> \<not> is_DatabaseError AttributeError
   \<and> json_loads unreachable_world sms_body = Inr (PDict sms_message)
   \<and> psycopg_connect unreachable_world = Some PsycopgOperationalError
   \<and> snd (callback unreachable_world default_config 7 sms_body) = Inr ()
   \<and> Log ERROR ''Error connecting to Postgres: %s'' [ArgExn PsycopgOperationalError]
        \<in> set (fst (callback unreachable_world default_config 7 sms_body))
   \<and> insert_failure rejecting_world default_config sms_message = Some PsycopgIntegrityError
   \<and> snd (callback rejecting_world default_config 7 sms_body) = Inr ()
   \<and> Log ERROR ''Database error during insertion: %s'' [ArgExn PsycopgIntegrityError]
        \<in> set (fst (callback rejecting_world default_config 7 sms_body))
   \<and> json_loads broken_world sms_body = Inr (PDict sms_message)
   \<and> cursor_execute broken_world
        (callback_query default_config (callback_columns sms_message) (callback_values sms_message))
        (callback_values sms_message) = Some PsycopgInterfaceError
   \<and> insert_failure broken_world default_config sms_message = Some PsycopgInterfaceError
   \<and> snd (callback broken_world default_config 7 sms_body) = Inl PsycopgInterfaceError
   \<and> snd (consume_messages default_config
             [quiet_attempt [(broken_world, 7, sms_body)] Blocks]) = Died PsycopgInterfaceError"
proof -
  have m: "json_loads quiet_world malformed_body = Inl JSONDecodeError"
    "is_JSONDecodeError_or_KeyError JSONDecodeError"
    by (simp_all add: quiet_world_def example_loads_def malformed_body_def sms_body_def
          array_body_def non_utf8_body_def)
  have n: "json_loads quiet_world non_utf8_body = Inl UnicodeDecodeError"
    "\<not> is_JSONDecodeError_or_KeyError UnicodeDecodeError"
    by (simp_all add: quiet_world_def example_loads_def sms_body_def array_body_def
          non_utf8_body_def)
  have a: "json_loads quiet_world array_body = Inr (PList [])" "\<forall>d'. PList [] \<noteq> PDict d'"
    by (simp_all add: quiet_world_def example_loads_def array_body_def sms_body_def)
  have u: "json_loads unreachable_world sms_body = Inr (PDict sms_message)"
    "psycopg_connect unreachable_world = Some PsycopgOperationalError"
    "is_psycopg_Error PsycopgOperationalError"
    by (simp_all add: unreachable_world_def quiet_world_def example_loads_def)
  have r: "json_loads rejecting_world sms_body = Inr (PDict sms_message)"
    "psycopg_connect rejecting_world = None"
    "insert_failure rejecting_world default_config sms_message = Some PsycopgIntegrityError"
    "is_DatabaseError PsycopgIntegrityError"
    by (simp_all add: insert_failure_def rejecting_world_def quiet_world_def example_loads_def)
  have b: "json_loads broken_world sms_body = Inr (PDict sms_message)"
    "psycopg_connect broken_world = None" "conn_cursor broken_world = None"
    "cursor_execute broken_world
        (callback_query default_config (callback_columns sms_message) (callback_values sms_message))
        (callback_values sms_message) = Some PsycopgInterfaceError"
    "insert_failure broken_world default_config sms_message = Some PsycopgInterfaceError"
    "\<not> is_DatabaseError PsycopgInterfaceError"
    "\<not> is_JSONDecodeError_or_KeyError PsycopgInterfaceError"
    "\<not> is_AMQPConnectionError PsycopgInterfaceError"
    by (simp_all add: insert_failure_def broken_world_def quiet_world_def example_loads_def)
  note M = callback_caught_and_escaping [where w = quiet_world and body = malformed_body
      and cfg = default_config and tag = 7 and e = JSONDecodeError]
  from m M have 1: "snd (callback quiet_world default_config 7 malformed_body) = Inr ()"
    "Log ERROR ''Failed to process message: %s'' [ArgExn JSONDecodeError]
        \<in> set (fst (callback quiet_world default_config 7 malformed_body))"
    by blast+
  note N = callback_caught_and_escaping [where w = quiet_world and body = non_utf8_body
      and cfg = default_config and tag = 7 and e = UnicodeDecodeError]
  from n N have 2: "snd (callback quiet_world default_config 7 non_utf8_body)
      = Inl UnicodeDecodeError"
    by presburger
  from a callback_caught_and_escaping [where w = quiet_world and body = array_body
      and cfg = default_config and tag = 7 and m = "PList []"]
  have 3: "snd (callback quiet_world default_config 7 array_body) = Inl AttributeError" by blast
  note U = callback_caught_and_escaping [where w = unreachable_world and body = sms_body
      and cfg = default_config and tag = 7 and d = sms_message and e = PsycopgOperationalError]
  from u U have 4: "snd (callback unreachable_world default_config 7 sms_body) = Inr ()"
    "Log ERROR ''Error connecting to Postgres: %s'' [ArgExn PsycopgOperationalError]
        \<in> set (fst (callback unreachable_world default_config 7 sms_body))"
    by presburger+
  note R = callback_caught_and_escaping [where w = rejecting_world and body = sms_body
      and cfg = default_config and tag = 7 and d = sms_message and e = PsycopgIntegrityError]
  from r R have "snd (callback rejecting_world default_config 7 sms_body)
      = (case insert_failure rejecting_world default_config sms_message of
           None \<Rightarrow> Inr ()
         | Some e' \<Rightarrow>
             if is_DatabaseError e' \<or> is_JSONDecodeError_or_KeyError e' then Inr () else Inl e')"
    by blast
  with r have 5: "snd (callback rejecting_world default_config 7 sms_body) = Inr ()" by simp
  from r R have 6: "Log ERROR ''Database error during insertion: %s'' [ArgExn PsycopgIntegrityError]
        \<in> set (fst (callback rejecting_world default_config 7 sms_body))"
    by blast
  note T = callback_caught_and_escaping [where w = broken_world and body = sms_body
      and cfg = default_config and tag = 7 and d = sms_message and e = PsycopgInterfaceError
      and ds = "[]" and after = Blocks and rest = "[]"]
  from b T have 7: "snd (callback broken_world default_config 7 sms_body) = Inl PsycopgInterfaceError"
    by blast
  with b T have 8: "snd (consume_messages default_config
             [quiet_attempt [(broken_world, 7, sms_body)] Blocks]) = Died PsycopgInterfaceError"
    by blast
  from m n a u r b 1 2 3 4 5 6 7 8 show ?thesis by simp
qed

section \<open>The callback of the dead-letter queue\<close>

text \<open>
  C5. For every dead-lettered delivery the callback first publishes the body it was
  given, unchanged, on the default exchange (the empty name) with the primary queue's
  name as routing key, and, once the publish call has returned, acknowledges the
  delivery tag as its next and last step, whatever the body is. It makes no call on the
  database, does not sleep, and does not decode the body: replacing \<open>json.loads\<close>
  changes nothing.
\<close>

theorem retry_callback_republishes:
  "fst (retry_callback w cfg tag body) =
     [Log INFO ''Retrying message from dead-letter queue.'' [],
      BasicPublish [] (POSTGRES_QUEUE cfg) body]
     @ (case basic_publish w of None \<Rightarrow> [BasicAck tag] | Some e \<Rightarrow> [])
   \<and> (basic_publish w = None \<longrightarrow>
        retry_callback w cfg tag body =
          ([Log INFO ''Retrying message from dead-letter queue.'' [],
            BasicPublish [] (POSTGRES_QUEUE cfg) body, BasicAck tag],
           (case basic_ack w of None \<Rightarrow> Inr () | Some e \<Rightarrow> Inl e)))
   \<and> filter is_database_call (fst (retry_callback w cfg tag body)) = []
   \<and> filter is_sleep (fst (retry_callback w cfg tag body)) = []
   \<and> retry_callback (w\<lparr>json_loads := f\<rparr>) cfg tag body = retry_callback w cfg tag body"
  by (cases "basic_publish w"; cases "basic_ack w") (simp_all add: retry_callback_def comp_defs)

theorem retry_callback_republishes_witness:
  "basic_publish quiet_world = None
   \<and> retry_callback quiet_world default_config 7 malformed_body =
       ([Log INFO ''Retrying message from dead-letter queue.'' [],
         BasicPublish [] ''postgres'' malformed_body, BasicAck 7], Inr ())"
proof -
  have p: "basic_publish quiet_world = None" "basic_ack quiet_world = None"
    "POSTGRES_QUEUE default_config = ''postgres''"
    by (simp_all add: quiet_world_def default_config_def)
  from retry_callback_republishes [of quiet_world default_config 7 malformed_body] p
  show ?thesis by simp
qed

section \<open>The scoped connection\<close>

lemma persist_database_calls:
  "filter is_database_call (fst (callback_persist w cfg tag cols vals)) \<noteq> []
   \<and> last (filter is_database_call (fst (callback_persist w cfg tag cols vals))) = ConnClose"
  by (cases "conn_cursor w"; cases "cursor_execute w (callback_query cfg cols vals) vals";
      cases "conn_commit w"; cases "basic_ack w"; simp add: callback_persist_cases)

lemma callback_closes:
  assumes "json_loads w body = Inr (PDict d)" "psycopg_connect w = None"
  shows "filter (\<lambda>ev. ev = ConnClose) (fst (callback w cfg tag body)) = [ConnClose]"
    and "last (filter is_database_call (fst (callback w cfg tag body))) = ConnClose"
proof -
  let ?P = "callback_persist w cfg tag (callback_columns d) (callback_values d)"
  show "filter (\<lambda>ev. ev = ConnClose) (fst (callback w cfg tag body)) = [ConnClose]"
    by (simp add: callback_connected_fst [OF assms] callback_prelude_def persist_closes
          split: sum.splits)
  have "filter is_database_call (fst (callback w cfg tag body)) =
          PsycopgConnect (POSTGRES_HOST cfg) (POSTGRES_DB cfg) (POSTGRES_USER cfg)
            (POSTGRES_PASSWORD cfg) # filter is_database_call (fst ?P)"
    by (simp add: callback_connected_fst [OF assms] callback_prelude_def split: sum.splits)
  then show "last (filter is_database_call (fst (callback w cfg tag body))) = ConnClose"
    using persist_database_calls [of w cfg tag "callback_columns d" "callback_values d"]
    by simp
qed

text \<open>
  C6. \<open>get_db_connection\<close>: when the connection is made, the connection is closed in
  the trace of the scope whatever the body does, whether it returns or raises, and the
  outcome of the body is the outcome of the scope; when the body has not closed it
  itself, the close is the last call of the scope. When the connection attempt raises,
  the body is not run at all and the exception is the outcome. \<open>connect_to_postgres\<close>
  never yields a connection after a failed attempt: it yields \<open>None\<close> or the exception
  leaves it. In the callback of \<open>app.py\<close> a connection that was made is closed exactly
  once, as the last call on the database, and after a failed attempt no further call on
  the database and no acknowledgment is made.
\<close>

theorem scoped_connection_released:
  "(psycopg_connect w = None \<longrightarrow>
      ConnClose \<in> set (fst (get_db_connection w cfg body))
      \<and> snd (get_db_connection w cfg body) = snd body
      \<and> (ConnClose \<notin> set (fst body) \<longrightarrow>
           last (filter is_database_call (fst (get_db_connection w cfg body))) = ConnClose))
   \<and> (psycopg_connect w = Some e \<longrightarrow>
        snd (get_db_connection w cfg body) = Inl e
        \<and> get_db_connection w cfg body = get_db_connection w cfg body'
        \<and> filter is_database_call (fst (get_db_connection w cfg body)) =
            [PsycopgConnect (POSTGRES_HOST cfg) (POSTGRES_DB cfg) (POSTGRES_USER cfg)
               (POSTGRES_PASSWORD cfg)]
        \<and> snd (connect_to_postgres w cfg) = (if is_psycopg_Error e then Inr None else Inl e))
   \<and> (json_loads w msg = Inr (PDict d) \<and> psycopg_connect w = None \<longrightarrow>
        filter (\<lambda>ev. ev = ConnClose) (fst (callback w cfg tag msg)) = [ConnClose]
        \<and> last (filter is_database_call (fst (callback w cfg tag msg))) = ConnClose)
   \<and> (json_loads w msg = Inr (PDict d) \<and> psycopg_connect w = Some e \<longrightarrow>
        filter is_database_call (fst (callback w cfg tag msg)) =
          [PsycopgConnect (POSTGRES_HOST cfg) (POSTGRES_DB cfg) (POSTGRES_USER cfg)
             (POSTGRES_PASSWORD cfg)]
        \<and> filter is_ack (fst (callback w cfg tag msg)) = [])"
proof (intro conjI impI)
  assume c: "psycopg_connect w = None"
  obtain t r where b: "body = (t, r)" by (cases body)
  from c b show "ConnClose \<in> set (fst (get_db_connection w cfg body))"
    by (simp add: get_db_connection_def call_def)
  from c b show "snd (get_db_connection w cfg body) = snd body"
    by (simp add: get_db_connection_def call_def)
  assume "ConnClose \<notin> set (fst body)"
  with c b show "last (filter is_database_call (fst (get_db_connection w cfg body))) = ConnClose"
    by (simp add: get_db_connection_def call_def)
next
  assume c: "psycopg_connect w = Some e"
  then show "snd (get_db_connection w cfg body) = Inl e"
    by (simp add: get_db_connection_def call_def)
  from c show "get_db_connection w cfg body = get_db_connection w cfg body'"
    by (simp add: get_db_connection_def call_def)
  from c show "filter is_database_call (fst (get_db_connection w cfg body)) =
            [PsycopgConnect (POSTGRES_HOST cfg) (POSTGRES_DB cfg) (POSTGRES_USER cfg)
               (POSTGRES_PASSWORD cfg)]"
    by (simp add: get_db_connection_def call_def)
  from c show "snd (connect_to_postgres w cfg) = (if is_psycopg_Error e then Inr None else Inl e)"
    by (simp add: connect_to_postgres_def comp_defs)
next
  assume a: "json_loads w msg = Inr (PDict d) \<and> psycopg_connect w = None"
  then show "filter (\<lambda>ev. ev = ConnClose) (fst (callback w cfg tag msg)) = [ConnClose]"
    by (simp add: callback_closes)
  from a show "last (filter is_database_call (fst (callback w cfg tag msg))) = ConnClose"
    by (simp add: callback_closes)
next
  assume a: "json_loads w msg = Inr (PDict d) \<and> psycopg_connect w = Some e"
  then show "filter is_database_call (fst (callback w cfg tag msg)) =
          [PsycopgConnect (POSTGRES_HOST cfg) (POSTGRES_DB cfg) (POSTGRES_USER cfg)
             (POSTGRES_PASSWORD cfg)]"
    by (simp add: callback_not_connected)
  from a show "filter is_ack (fst (callback w cfg tag msg)) = []"
    by (simp add: callback_not_connected)
qed

theorem scoped_connection_released_witness:
  "psycopg_connect quiet_world = None
   \<and> ConnClose \<notin> set (fst (([ConnCursor], Inl KeyError) :: unit comp))
   \<and> ConnClose \<in> set (fst (get_db_connection quiet_world default_config
                               (([ConnCursor], Inl KeyError) :: unit comp)))
   \<and> snd (get_db_connection quiet_world default_config
             (([ConnCursor], Inl KeyError) :: unit comp)) = Inl KeyError
   \<and> last (filter is_database_call
             (fst (get_db_connection quiet_world default_config
                     (([ConnCursor], Inl KeyError) :: unit comp)))) = ConnClose
   \<and> psycopg_connect unreachable_world = Some PsycopgOperationalError
   \<and> snd (get_db_connection unreachable_world default_config
             (([ConnCursor], Inr ()) :: unit comp)) = Inl PsycopgOperationalError
   \<and> snd (connect_to_postgres unreachable_world default_config) = Inr None
   \<and> json_loads quiet_world sms_body = Inr (PDict sms_message)
   \<and> filter (\<lambda>ev. ev = ConnClose) (fst (callback quiet_world default_config 7 sms_body))
       = [ConnClose]
   \<and> json_loads unreachable_world sms_body = Inr (PDict sms_message)
   \<and> filter is_ack (fst (callback unreachable_world default_config 7 sms_body)) = []"
proof -
  have q: "psycopg_connect quiet_world = None"
    "json_loads quiet_world sms_body = Inr (PDict sms_message)"
    "ConnClose \<notin> set (fst (([ConnCursor], Inl KeyError) :: unit comp))"
    by (simp_all add: quiet_world_def example_loads_def)
  have u: "psycopg_connect unreachable_world = Some PsycopgOperationalError"
    "json_loads unreachable_world sms_body = Inr (PDict sms_message)"
    "is_psycopg_Error PsycopgOperationalError"
    by (simp_all add: unreachable_world_def quiet_world_def example_loads_def)
  note open_scope = scoped_connection_released
    [where w = quiet_world and cfg = default_config
       and body = "([ConnCursor], Inl KeyError) :: unit comp"
       and msg = sms_body and d = sms_message and tag = 7]
  note no_scope = scoped_connection_released
    [where w = unreachable_world and cfg = default_config
       and body = "([ConnCursor], Inr ()) :: unit comp" and e = PsycopgOperationalError
       and msg = sms_body and d = sms_message and tag = 7]
  from q open_scope have 1:
    "ConnClose \<in> set (fst (get_db_connection quiet_world default_config
                               (([ConnCursor], Inl KeyError) :: unit comp)))"
    "snd (get_db_connection quiet_world default_config
             (([ConnCursor], Inl KeyError) :: unit comp)) = Inl KeyError"
    "last (filter is_database_call
             (fst (get_db_connection quiet_world default_config
                     (([ConnCursor], Inl KeyError) :: unit comp)))) = ConnClose"
    "filter (\<lambda>ev. ev = ConnClose) (fst (callback quiet_world default_config 7 sms_body))
       = [ConnClose]"
    by simp_all
  from u no_scope have 2:
    "snd (get_db_connection unreachable_world default_config
             (([ConnCursor], Inr ()) :: unit comp)) = Inl PsycopgOperationalError"
    "snd (connect_to_postgres unreachable_world default_config) = Inr None"
    "filter is_ack (fst (callback unreachable_world default_config 7 sms_body)) = []"
    by simp_all
  from q u 1 2 show ?thesis by simp
qed

section \<open>The parameterized insert\<close>

lemma count_placeholders_skip:
  "CHR ''%'' \<noteq> c \<Longrightarrow> count_placeholders (c # ys) = count_placeholders ys"
  by (cases ys) simp_all

lemma count_placeholders_no_percent:
  "CHR ''%'' \<notin> set xs \<Longrightarrow> count_placeholders (xs @ ys) = count_placeholders ys"
  by (induction xs) (simp_all add: count_placeholders_skip)

lemma count_placeholders_percent_s:
  "count_placeholders (CHR ''%'' # CHR ''s'' # ys) = Suc (count_placeholders ys)"
  by simp

lemma py_join_no_percent:
  "\<forall>c \<in> set xs. CHR ''%'' \<notin> set c \<Longrightarrow> CHR ''%'' \<notin> set (py_join '', '' xs)"
  by (induction "'', ''" xs rule: py_join.induct) simp_all

lemma placeholders_Suc_Suc:
  "placeholders (Suc (Suc n)) = ''%s, '' @ placeholders (Suc n)"
  by (simp add: placeholders_def)

lemma count_placeholders_placeholders:
  "count_placeholders (placeholders n @ ys) = n + count_placeholders ys"
proof (induction n)
  case 0
  show ?case by (simp add: placeholders_def)
next
  case (Suc n)
  show ?case
  proof (cases n)
    case 0
    then show ?thesis by (simp add: placeholders_def)
  next
    case (Suc k)
    have "count_placeholders (placeholders (Suc (Suc k)) @ ys)
            = Suc (count_placeholders ('', '' @ placeholders (Suc k) @ ys))"
      by (simp add: placeholders_Suc_Suc)
    also have "\<dots> = Suc (count_placeholders (placeholders (Suc k) @ ys))"
      by (simp add: count_placeholders_skip)
    finally show ?thesis using Suc.IH Suc by simp
  qed
qed

lemma build_insert_query_shape:
  "fst (build_insert_query table columns vals) =
     ''\<newline>        INSERT INTO '' @ table @ '' ('' @ py_join '', '' columns
       @ '')\<newline>        VALUES ('' @ placeholders (length vals) @ '')\<newline>    ''"
  by (simp add: build_insert_query_def placeholders_def)

lemma build_insert_query_count:
  assumes "CHR ''%'' \<notin> set table" "\<forall>c \<in> set columns. CHR ''%'' \<notin> set c"
  shows "count_placeholders (fst (build_insert_query table columns vals)) = length vals"
proof -
  have 1: "CHR ''%'' \<notin> set (''\<newline>        INSERT INTO '' @ table @ '' ('' @ py_join '', '' columns
       @ '')\<newline>        VALUES ('')"
    using assms py_join_no_percent [of columns] by simp
  have 2: "count_placeholders '')\<newline>    '' = 0" by simp
  have "fst (build_insert_query table columns vals) =
     (''\<newline>        INSERT INTO '' @ table @ '' ('' @ py_join '', '' columns
       @ '')\<newline>        VALUES ('') @ (placeholders (length vals) @ '')\<newline>    '')"
    by (simp add: build_insert_query_shape)
  then show ?thesis
    by (simp only: count_placeholders_no_percent [OF 1] count_placeholders_placeholders 2)
qed

lemma execute_query_executes:
  "filter is_execute (fst (execute_query w query vals)) =
     (case str_mod w query vals of Inl e \<Rightarrow> [] | Inr resolved \<Rightarrow> [CursorExecute query vals])"
  by (cases "str_mod w query vals"; cases "cursor_execute w query vals")
     (simp_all add: execute_query_def comp_defs)

lemma snd_build_insert_query: "snd (build_insert_query table columns vals) = vals"
  by (simp add: build_insert_query_def)

lemma handle_twilio_sms_executes:
  "filter is_execute (fst (handle_twilio_sms w cfg (PDict d))) =
     (case str_mod w (fst (build_insert_query (MESSAGES_TABLE cfg) (handle_twilio_sms_columns d)
                             (handle_twilio_sms_values d))) (handle_twilio_sms_values d) of
        Inl e \<Rightarrow> []
      | Inr resolved \<Rightarrow>
          [CursorExecute (fst (build_insert_query (MESSAGES_TABLE cfg) (handle_twilio_sms_columns d)
                             (handle_twilio_sms_values d))) (handle_twilio_sms_values d)])"
proof -
  let ?vs = "handle_twilio_sms_values d"
  let ?q = "fst (build_insert_query (MESSAGES_TABLE cfg) (handle_twilio_sms_columns d) ?vs)"
  have "fst (handle_twilio_sms w cfg (PDict d)) =
          [Log DEBUG ''Handling twilio.sms.incoming message: %s'' [ArgVal (PDict d)],
           Log DEBUG ''Executing `twilio.sms.incoming` query: %s'' [ArgVal (PStr ?q)]]
          @ fst (execute_query w ?q ?vs)"
    by (cases "execute_query w ?q ?vs")
       (simp add: handle_twilio_sms_def case_prod_beta snd_build_insert_query
          py_seq_def py_bind_def logger_log_def)
  then show ?thesis by (simp add: execute_query_executes)
qed

text \<open>
  C7. \<open>build_insert_query\<close> returns the text \<open>INSERT INTO table (columns) VALUES
  (placeholders)\<close>, where the placeholders are one \<open>%s\<close> per value joined by commas,
  and returns the values unchanged beside it. The number of \<open>%s\<close> among the
  placeholders is the number of values, and so is the number in the whole text when the
  table and column names hold no percent sign. The text depends on the values through
  their number only: two value lists of the same length give the same text. What
  \<open>execute_query\<close> hands to the cursor is that text and the value list as the
  parameters (the resolved text goes to the log only); when formatting the log line
  raises, nothing is executed. \<open>handle_twilio_sms\<close> executes exactly the text and values
  built this way.
\<close>

theorem insert_is_parameterized:
  "fst (build_insert_query table columns vals) =
     ''\<newline>        INSERT INTO '' @ table @ '' ('' @ py_join '', '' columns
       @ '')\<newline>        VALUES ('' @ placeholders (length vals) @ '')\<newline>    ''
   \<and> placeholders (length vals) = py_join '', '' (replicate (length vals) ''%s'')
   \<and> snd (build_insert_query table columns vals) = vals
   \<and> count_placeholders (placeholders (length vals)) = length vals
   \<and> (CHR ''%'' \<notin> set table \<and> (\<forall>c \<in> set columns. CHR ''%'' \<notin> set c) \<longrightarrow>
        count_placeholders (fst (build_insert_query table columns vals)) = length vals)
   \<and> (length vals' = length vals \<longrightarrow>
        fst (build_insert_query table columns vals') = fst (build_insert_query table columns vals))
   \<and> filter is_execute (fst (execute_query w query vals)) =
       (case str_mod w query vals of Inl e \<Rightarrow> [] | Inr resolved \<Rightarrow> [CursorExecute query vals])
   \<and> filter is_execute (fst (handle_twilio_sms w cfg (PDict d))) =
       (case str_mod w (fst (build_insert_query (MESSAGES_TABLE cfg) (handle_twilio_sms_columns d)
                               (handle_twilio_sms_values d))) (handle_twilio_sms_values d) of
          Inl e \<Rightarrow> []
        | Inr resolved \<Rightarrow>
            [CursorExecute
               (fst (build_insert_query (MESSAGES_TABLE cfg) (handle_twilio_sms_columns d)
                       (handle_twilio_sms_values d)))
               (handle_twilio_sms_values d)])"
proof (intro conjI impI)
  show "fst (build_insert_query table columns vals) =
     ''\<newline>        INSERT INTO '' @ table @ '' ('' @ py_join '', '' columns
       @ '')\<newline>        VALUES ('' @ placeholders (length vals) @ '')\<newline>    ''"
    by (rule build_insert_query_shape)
  show "placeholders (length vals) = py_join '', '' (replicate (length vals) ''%s'')"
    by (simp add: placeholders_def)
  show "snd (build_insert_query table columns vals) = vals"
    by (rule snd_build_insert_query)
  show "count_placeholders (placeholders (length vals)) = length vals"
    using count_placeholders_placeholders [of "length vals" "[]"] by simp
  show "filter is_execute (fst (execute_query w query vals)) =
       (case str_mod w query vals of Inl e \<Rightarrow> [] | Inr resolved \<Rightarrow> [CursorExecute query vals])"
    by (rule execute_query_executes)
  show "filter is_execute (fst (handle_twilio_sms w cfg (PDict d))) =
       (case str_mod w (fst (build_insert_query (MESSAGES_TABLE cfg) (handle_twilio_sms_columns d)
                               (handle_twilio_sms_values d))) (handle_twilio_sms_values d) of
          Inl e \<Rightarrow> []
        | Inr resolved \<Rightarrow>
            [CursorExecute
               (fst (build_insert_query (MESSAGES_TABLE cfg) (handle_twilio_sms_columns d)
                       (handle_twilio_sms_values d)))
               (handle_twilio_sms_values d)])"
    by (rule handle_twilio_sms_executes)
next
  assume "CHR ''%'' \<notin> set table \<and> (\<forall>c \<in> set columns. CHR ''%'' \<notin> set c)"
  then show "count_placeholders (fst (build_insert_query table columns vals)) = length vals"
    by (simp add: build_insert_query_count)
next
  assume "length vals' = length vals"
  then show "fst (build_insert_query table columns vals')
               = fst (build_insert_query table columns vals)"
    by (simp add: build_insert_query_def)
qed

theorem insert_is_parameterized_witness:
  "CHR ''%'' \<notin> set ''messages'' \<and> CHR ''%'' \<notin> set ''body'' \<and> CHR ''%'' \<notin> set ''from_num''
   \<and> count_placeholders
        (fst (build_insert_query ''messages'' [''body'', ''from_num''] [PStr ''hi'', PNone])) = 2
   \<and> length [PInt 1, PInt 2] = length [PStr ''hi'', PNone]
   \<and> fst (build_insert_query ''messages'' [''body'', ''from_num''] [PInt 1, PInt 2])
       = fst (build_insert_query ''messages'' [''body'', ''from_num''] [PStr ''hi'', PNone])
   \<and> fst (build_insert_query ''messages'' [''body'', ''from_num''] [PStr ''hi'', PNone])
       = ''\<newline>        INSERT INTO messages (body, from_num)\<newline>        VALUES (%s, %s)\<newline>    ''"
proof -
  have h: "CHR ''%'' \<notin> set ''messages'' \<and> (\<forall>c \<in> set [''body'', ''from_num'']. CHR ''%'' \<notin> set c)"
    "length [PInt 1, PInt 2] = length [PStr ''hi'', PNone]"
    "length [PStr ''hi'', PNone] = 2"
    by simp_all
  note T = insert_is_parameterized
    [where table = "''messages''" and columns = "[''body'', ''from_num'']"
       and vals = "[PStr ''hi'', PNone]" and vals' = "[PInt 1, PInt 2]"
       and w = quiet_world and query = "[]" and cfg = default_config and d = "[]"]
  from T h(1) have "count_placeholders
        (fst (build_insert_query ''messages'' [''body'', ''from_num''] [PStr ''hi'', PNone]))
      = length [PStr ''hi'', PNone]"
    by blast
  then have 1: "count_placeholders
        (fst (build_insert_query ''messages'' [''body'', ''from_num''] [PStr ''hi'', PNone])) = 2"
    by simp
  from T h(2) have 2: "fst (build_insert_query ''messages'' [''body'', ''from_num''] [PInt 1, PInt 2])
       = fst (build_insert_query ''messages'' [''body'', ''from_num''] [PStr ''hi'', PNone])"
    by blast
  from T have "fst (build_insert_query ''messages'' [''body'', ''from_num''] [PStr ''hi'', PNone])
       = ''\<newline>        INSERT INTO '' @ ''messages'' @ '' ('' @ py_join '', '' [''body'', ''from_num'']
       @ '')\<newline>        VALUES ('' @ placeholders (length [PStr ''hi'', PNone]) @ '')\<newline>    ''"
    by blast
  then have 3: "fst (build_insert_query ''messages'' [''body'', ''from_num''] [PStr ''hi'', PNone])
       = ''\<newline>        INSERT INTO messages (body, from_num)\<newline>        VALUES (%s, %s)\<newline>    ''"
    by (simp add: placeholders_def)
  have "CHR ''%'' \<notin> set ''messages'' \<and> CHR ''%'' \<notin> set ''body'' \<and> CHR ''%'' \<notin> set ''from_num''"
    by simp
  with h(2) 1 2 3 show ?thesis by blast
qed

section \<open>Optional fields\<close>

lemma truthy_present: "truthy (dict_get d k) \<Longrightarrow> map_of d k = Some (dict_get d k)"
  by (simp add: dict_get_def split: option.splits)

lemma absent_not_truthy: "map_of d k = None \<Longrightarrow> \<not> truthy (dict_get d k)"
  by (simp add: dict_get_def)

lemma quoted_inject: "quoted a = quoted b \<longleftrightarrow> a = b"
  by (simp add: quoted_def)

lemma location_pairs:
  "zip (fst (location_fields d ks)) (snd (location_fields d ks)) =
     map (\<lambda>k. (quoted k, dict_get d k)) (filter (\<lambda>k. truthy (dict_get d k)) ks)"
  by (simp add: location_fields_eq zip_map_map zip_same_conv_map)

lemma location_columns_set:
  "set (fst (location_fields d ks)) = quoted ` {k \<in> set ks. truthy (dict_get d k)}"
  by (simp add: location_fields_eq)

lemma location_values_set:
  "set (snd (location_fields d ks)) = dict_get d ` {k \<in> set ks. truthy (dict_get d k)}"
  by (simp add: location_fields_eq)

lemma media_pairs:
  "zip (fst (media_fields tc uc d)) (snd (media_fields tc uc d)) =
     map (\<lambda>(k, c). (c, dict_get d k))
       (filter (\<lambda>(k, c). truthy (dict_get d k)) (concat (map (media_keys tc uc) [0..<10])))"
  by (simp only: media_fields_eq fst_conv snd_conv zip_map_map zip_same_conv_map map_map)
     (simp add: case_prod_beta comp_def)

lemma media_columns_set:
  "set (fst (media_fields tc uc d)) =
     {c. \<exists>i < 10. (c = tc i \<and> truthy (dict_get d (''MediaContentType'' @ str_nat i)))
                 \<or> (c = uc i \<and> truthy (dict_get d (''MediaUrl'' @ str_nat i)))}"
  by (simp only: media_fields_eq fst_conv) (force simp add: media_keys_def)

lemma media_values_set:
  "set (snd (media_fields tc uc d)) =
     {v. \<exists>i < 10. (v = dict_get d (''MediaContentType'' @ str_nat i) \<and> truthy v)
                 \<or> (v = dict_get d (''MediaUrl'' @ str_nat i) \<and> truthy v)}"
  by (simp only: media_fields_eq snd_conv) (force simp add: media_keys_def)

lemma str_nat_length_small: "i < 10 \<Longrightarrow> length (str_nat i) = 1"
  by (simp add: str_nat.simps)

lemma str_nat_nonempty: "str_nat i \<noteq> []"
  by (subst str_nat.simps) simp

lemma str_nat_length_large: "10 \<le> i \<Longrightarrow> 2 \<le> length (str_nat i)"
proof -
  assume "10 \<le> i"
  then have "str_nat i = str_nat (i div 10) @ [digit_char (i mod 10)]"
    by (subst str_nat.simps) simp
  moreover have "1 \<le> length (str_nat (i div 10))"
    using str_nat_nonempty [of "i div 10"] by (cases "str_nat (i div 10)") simp_all
  ultimately show ?thesis by simp
qed

lemma str_nat_out_of_range: "10 \<le> i \<Longrightarrow> j < 10 \<Longrightarrow> str_nat i \<noteq> str_nat j"
  using str_nat_length_large [of i] str_nat_length_small [of j] by auto

lemma location_pairs_present:
  "\<forall>(c, v) \<in> set (zip (fst (location_fields d ks)) (snd (location_fields d ks))).
     \<exists>k \<in> set ks. c = quoted k \<and> map_of d k = Some v \<and> truthy v"
  by (auto simp add: location_pairs truthy_present)

lemma media_pairs_present:
  "\<forall>(c, v) \<in> set (zip (fst (media_fields tc uc d)) (snd (media_fields tc uc d))).
     \<exists>i < 10. (c = tc i \<and> map_of d (''MediaContentType'' @ str_nat i) = Some v \<and> truthy v)
             \<or> (c = uc i \<and> map_of d (''MediaUrl'' @ str_nat i) = Some v \<and> truthy v)"
  by (simp only: media_pairs) (force simp add: media_keys_def truthy_present)

lemma no_null_values:
  "PNone \<notin> set (snd (location_fields d ks)) \<and> PNone \<notin> set (snd (media_fields tc uc d))"
  by (auto simp add: location_values_set media_values_set)

lemma media_fields_bound: "length (fst (media_fields tc uc d)) \<le> 20"
proof -
  have "length (fst (media_fields tc uc d))
          \<le> length (concat (map (media_keys tc uc) [0..<10]))"
    by (simp only: media_fields_eq fst_conv length_map length_filter_le)
  also have "\<dots> = 20"
    by (simp add: media_keys_def length_concat comp_def sum_list_triv)
  finally show ?thesis .
qed

lemma callback_columns_set:
  "set (callback_columns d) =
     {quoted ''MessageSid'', quoted ''AccountSid'', quoted ''MessagingServiceSid'',
      quoted ''From'', quoted ''To'', quoted ''Body'', quoted ''NumSegments'',
      quoted ''NumMedia'', quoted ''ApiVersion''}
     \<union> quoted ` {k \<in> set callback_loc_types. truthy (dict_get d k)}
     \<union> {c. \<exists>i < 10. (c = callback_type_column i
                        \<and> truthy (dict_get d (''MediaContentType'' @ str_nat i)))
                   \<or> (c = callback_url_column i
                        \<and> truthy (dict_get d (''MediaUrl'' @ str_nat i)))}"
  by (simp only: callback_columns_def set_append location_columns_set media_columns_set)
     simp

lemma handle_twilio_sms_columns_set:
  "set (handle_twilio_sms_columns d) =
     {''message_sid'', ''account_sid'', ''messagingservice_sid'', ''from_num'', ''to_num'',
      ''body'', ''num_segments'', ''num_media'', ''api_version'', ''sender_name'',
      ''wbor_message_id''}
     \<union> quoted ` {k \<in> set handle_twilio_sms_loc_types. truthy (dict_get d k)}
     \<union> {c. \<exists>i < 10. (c = handle_twilio_sms_type_column i
                        \<and> truthy (dict_get d (''MediaContentType'' @ str_nat i)))
                   \<or> (c = handle_twilio_sms_url_column i
                        \<and> truthy (dict_get d (''MediaUrl'' @ str_nat i)))}"
  by (simp only: handle_twilio_sms_columns_def set_append location_columns_set media_columns_set)
     simp

lemma callback_absent_location:
  "k \<in> set callback_loc_types \<Longrightarrow> map_of d k = None \<Longrightarrow> quoted k \<notin> set (callback_columns d)"
  by (auto simp add: callback_columns_set quoted_inject callback_loc_types_def
        callback_type_column_def callback_url_column_def dict_get_def)

lemma handle_twilio_sms_absent_location:
  "k \<in> set handle_twilio_sms_loc_types \<Longrightarrow> map_of d k = None \<Longrightarrow>
   quoted k \<notin> set (handle_twilio_sms_columns d)"
  by (auto simp add: handle_twilio_sms_columns_set quoted_inject dict_get_def)
     (auto simp add: quoted_def handle_twilio_sms_loc_types_def
        handle_twilio_sms_type_column_def handle_twilio_sms_url_column_def)

lemma callback_absent_media:
  "(map_of d (''MediaContentType'' @ str_nat i) = None \<or> 10 \<le> i \<longrightarrow>
      callback_type_column i \<notin> set (callback_columns d))
   \<and> (map_of d (''MediaUrl'' @ str_nat i) = None \<or> 10 \<le> i \<longrightarrow>
      callback_url_column i \<notin> set (callback_columns d))"
  by (auto simp add: callback_columns_set quoted_inject callback_loc_types_def
        callback_type_column_def callback_url_column_def dict_get_def
        dest: str_nat_out_of_range)

lemma handle_twilio_sms_absent_media:
  "(map_of d (''MediaContentType'' @ str_nat i) = None \<or> 10 \<le> i \<longrightarrow>
      handle_twilio_sms_type_column i \<notin> set (handle_twilio_sms_columns d))
   \<and> (map_of d (''MediaUrl'' @ str_nat i) = None \<or> 10 \<le> i \<longrightarrow>
      handle_twilio_sms_url_column i \<notin> set (handle_twilio_sms_columns d))"
  by (auto simp add: handle_twilio_sms_columns_set quoted_def handle_twilio_sms_loc_types_def
        handle_twilio_sms_type_column_def handle_twilio_sms_url_column_def dict_get_def
        dest: str_nat_out_of_range)

text \<open>
  C8. In both sources the location and media fields give a column and a value only for a
  key that is present in the message: every column and value pair of the location loop
  is the quoted name of one of the location keys with the value the message holds under
  it, every pair of the media loop is the column of an index below 10 with the value the
  message holds under \<open>MediaContentType{i}\<close> or \<open>MediaUrl{i}\<close>, and no such value is
  \<open>None\<close>. A location key or a media key that is absent gives no column in the column
  list of the callback of \<open>app.py\<close> nor in that of \<open>handle_twilio_sms\<close>, and an index of
  10 or more never gives one, whatever the message holds; the media loop adds at most 20
  columns.
\<close>

theorem optional_fields_only_when_present:
  "(\<forall>(c, v) \<in> set (zip (fst (location_fields d ks)) (snd (location_fields d ks))).
      \<exists>k \<in> set ks. c = quoted k \<and> map_of d k = Some v \<and> truthy v)
   \<and> (\<forall>(c, v) \<in> set (zip (fst (media_fields tc uc d)) (snd (media_fields tc uc d))).
      \<exists>i < 10. (c = tc i \<and> map_of d (''MediaContentType'' @ str_nat i) = Some v \<and> truthy v)
              \<or> (c = uc i \<and> map_of d (''MediaUrl'' @ str_nat i) = Some v \<and> truthy v))
   \<and> length (fst (location_fields d ks)) = length (snd (location_fields d ks))
   \<and> length (fst (media_fields tc uc d)) = length (snd (media_fields tc uc d))
   \<and> PNone \<notin> set (snd (location_fields d ks)) \<and> PNone \<notin> set (snd (media_fields tc uc d))
   \<and> length (fst (media_fields tc uc d)) \<le> 20
   \<and> (k \<in> set callback_loc_types \<and> map_of d k = None \<longrightarrow>
        quoted k \<notin> set (callback_columns d))
   \<and> (k \<in> set handle_twilio_sms_loc_types \<and> map_of d k = None \<longrightarrow>
        quoted k \<notin> set (handle_twilio_sms_columns d))
   \<and> (map_of d (''MediaContentType'' @ str_nat i) = None \<or> 10 \<le> i \<longrightarrow>
        callback_type_column i \<notin> set (callback_columns d)
        \<and> handle_twilio_sms_type_column i \<notin> set (handle_twilio_sms_columns d))
   \<and> (map_of d (''MediaUrl'' @ str_nat i) = None \<or> 10 \<le> i \<longrightarrow>
        callback_url_column i \<notin> set (callback_columns d)
        \<and> handle_twilio_sms_url_column i \<notin> set (handle_twilio_sms_columns d))"
proof (intro conjI impI)
  show "\<forall>(c, v) \<in> set (zip (fst (location_fields d ks)) (snd (location_fields d ks))).
      \<exists>k \<in> set ks. c = quoted k \<and> map_of d k = Some v \<and> truthy v"
    by (rule location_pairs_present)
  show "\<forall>(c, v) \<in> set (zip (fst (media_fields tc uc d)) (snd (media_fields tc uc d))).
      \<exists>i < 10. (c = tc i \<and> map_of d (''MediaContentType'' @ str_nat i) = Some v \<and> truthy v)
              \<or> (c = uc i \<and> map_of d (''MediaUrl'' @ str_nat i) = Some v \<and> truthy v)"
    by (rule media_pairs_present)
  show "length (fst (location_fields d ks)) = length (snd (location_fields d ks))"
    by (rule location_fields_length)
  show "length (fst (media_fields tc uc d)) = length (snd (media_fields tc uc d))"
    by (rule media_fields_length)
  show "PNone \<notin> set (snd (location_fields d ks))" using no_null_values by blast
  show "PNone \<notin> set (snd (media_fields tc uc d))" using no_null_values by blast
  show "length (fst (media_fields tc uc d)) \<le> 20" by (rule media_fields_bound)
next
  assume "k \<in> set callback_loc_types \<and> map_of d k = None"
  then show "quoted k \<notin> set (callback_columns d)"
    using callback_absent_location by blast
next
  assume "k \<in> set handle_twilio_sms_loc_types \<and> map_of d k = None"
  then show "quoted k \<notin> set (handle_twilio_sms_columns d)"
    using handle_twilio_sms_absent_location by blast
next
  assume a: "map_of d (''MediaContentType'' @ str_nat i) = None \<or> 10 \<le> i"
  from a show "callback_type_column i \<notin> set (callback_columns d)"
    using callback_absent_media [of d i] by blast
  from a show "handle_twilio_sms_type_column i \<notin> set (handle_twilio_sms_columns d)"
    using handle_twilio_sms_absent_media [of d i] by blast
next
  assume a: "map_of d (''MediaUrl'' @ str_nat i) = None \<or> 10 \<le> i"
  from a show "callback_url_column i \<notin> set (callback_columns d)"
    using callback_absent_media [of d i] by blast
  from a show "handle_twilio_sms_url_column i \<notin> set (handle_twilio_sms_columns d)"
    using handle_twilio_sms_absent_media [of d i] by blast
qed

theorem optional_fields_only_when_present_witness:
  "zip (fst (location_fields sms_message callback_loc_types))
       (snd (location_fields sms_message callback_loc_types))
     = [(quoted ''FromCity'', PStr ''BRUNSWICK'')]
   \<and> (\<exists>k \<in> set callback_loc_types.
         quoted ''FromCity'' = quoted k \<and> map_of sms_message k = Some (PStr ''BRUNSWICK'')
         \<and> truthy (PStr ''BRUNSWICK''))
   \<and> zip (fst (media_fields callback_type_column callback_url_column sms_message))
          (snd (media_fields callback_type_column callback_url_column sms_message))
     = [(callback_url_column 0, PStr ''https://example.org/0.jpg'')]
   \<and> (''FromState'' \<in> set callback_loc_types \<and> map_of sms_message ''FromState'' = None)
   \<and> quoted ''FromState'' \<notin> set (callback_columns sms_message)
   \<and> map_of sms_message (''MediaUrl'' @ str_nat 1) = None
   \<and> callback_url_column 1 \<notin> set (callback_columns sms_message)
   \<and> callback_url_column 10 \<notin> set (callback_columns sms_message)
   \<and> handle_twilio_sms_url_column 1 \<notin> set (handle_twilio_sms_columns sms_message)"
proof -
  have loc: "zip (fst (location_fields sms_message callback_loc_types))
       (snd (location_fields sms_message callback_loc_types))
     = [(quoted ''FromCity'', PStr ''BRUNSWICK'')]"
    by (simp add: location_pairs callback_loc_types_def sms_message_def dict_get_def)
  have med: "zip (fst (media_fields callback_type_column callback_url_column sms_message))
          (snd (media_fields callback_type_column callback_url_column sms_message))
     = [(callback_url_column 0, PStr ''https://example.org/0.jpg'')]"
    by (simp add: media_pairs media_keys_def sms_message_def dict_get_def upt_rec
          str_nat.simps digit_char_def)
  have abs: "''FromState'' \<in> set callback_loc_types \<and> map_of sms_message ''FromState'' = None"
    "map_of sms_message (''MediaUrl'' @ str_nat 1) = None \<or> (10::nat) \<le> 1"
    "map_of sms_message (''MediaUrl'' @ str_nat 10) = None \<or> (10::nat) \<le> 10"
    by (simp_all add: callback_loc_types_def sms_message_def str_nat.simps digit_char_def)
  note T = optional_fields_only_when_present
    [where d = sms_message and ks = callback_loc_types and tc = callback_type_column
       and uc = callback_url_column and k = "''FromState''"]
  from T [where i = 1] loc
  have 1: "\<exists>k \<in> set callback_loc_types.
         quoted ''FromCity'' = quoted k \<and> map_of sms_message k = Some (PStr ''BRUNSWICK'')
         \<and> truthy (PStr ''BRUNSWICK'')"
    by simp
  from T [where i = 1] abs(1)
  have 2: "quoted ''FromState'' \<notin> set (callback_columns sms_message)" by blast
  from T [where i = 1] abs(2)
  have 3: "callback_url_column 1 \<notin> set (callback_columns sms_message)"
    "handle_twilio_sms_url_column 1 \<notin> set (handle_twilio_sms_columns sms_message)"
    by blast+
  from T [where i = 10] abs(3)
  have 4: "callback_url_column 10 \<notin> set (callback_columns sms_message)" by blast
  have 5: "map_of sms_message (''MediaUrl'' @ str_nat 1) = None"
    by (simp add: sms_message_def str_nat.simps digit_char_def)
  from loc med abs(1) 1 2 3 4 5 show ?thesis by blast
qed

section \<open>The reconnection loop\<close>















end
